theory Spec2Isabelle
  imports Main "HOL-Library.Word"
begin

unbundle bit_operations_syntax

section \<open>Go values, errors and panics\<close>

text \<open>
  Go strings are byte sequences; \<^typ>\<open>string\<close> is a list of 8-bit characters, so a
  Go \<open>string\<close> is a \<^typ>\<open>string\<close> and \<open>s[i]\<close> is a \<^typ>\<open>char\<close>.

  A Go function returning \<open>(bool, error)\<close> is modelled by a pair whose second component
  is \<open>None\<close> for the nil error. A run-time panic (a failed type assertion) is no
  return value at all: it is the \<open>Inl\<close> branch of a sum.
\<close>

datatype error =
    Unbalanced string            \<comment> \<open>\<open>fmt.Errorf(`Unbalanced braces in "%q"`, s)\<close>\<close>
  | RegexSyntax string           \<comment> \<open>an error of \<open>regexp2.Compile\<close> on the given expression\<close>
  | MatchTimeout                 \<comment> \<open>the only error \<open>MatchString\<close> documents: the 250 ms budget\<close>
  | JSONSyntax string            \<comment> \<open>an error of \<open>json.Unmarshal\<close> on the given text\<close>
  | ParseError string            \<comment> \<open>an error of \<open>time.Parse\<close> or \<open>net.ParseCIDR\<close> on the given text\<close>
  | WithStack error              \<comment> \<open>\<open>errors.WithStack(err)\<close>\<close>

datatype panic =
    TypeAssertion                \<comment> \<open>\<open>x.(T)\<close> on a value whose dynamic type is not \<open>T\<close>\<close>

section \<open>Library functions on strings\<close>

text \<open>\<open>strings.Split(s, ",")\<close> with a one-byte separator: \<open>n\<close> separators give \<open>n + 1\<close> pieces.\<close>

fun strings_Split :: "string \<Rightarrow> char \<Rightarrow> string list" where
  "strings_Split [] sep = [[]]"
| "strings_Split (c # cs) sep =
     (if c = sep then [] # strings_Split cs sep
      else (case strings_Split cs sep of
              [] \<Rightarrow> [[c]]
            | x # xs \<Rightarrow> (c # x) # xs))"

text \<open>\<open>strings.Contains(a, b)\<close>: \<open>b\<close> occurs in \<open>a\<close> as a contiguous run of bytes.\<close>

fun has_prefix :: "string \<Rightarrow> string \<Rightarrow> bool" where
  "has_prefix s [] = True"
| "has_prefix [] (b # bs) = False"
| "has_prefix (a # as) (b # bs) = (a = b \<and> has_prefix as bs)"

fun strings_Contains :: "string \<Rightarrow> string \<Rightarrow> bool" where
  "strings_Contains [] b = (b = [])"
| "strings_Contains (a # as) b = (has_prefix (a # as) b \<or> strings_Contains as b)"

text \<open>\<open>regexp.QuoteMeta\<close>: a backslash (byte \<open>0x5C\<close>) before a backslash and before each byte of \<open>.+*?()|[]{}^$\<close>.\<close>

definition special :: "char \<Rightarrow> bool" where
  "special c = (c = CHR 0x5C \<or> c \<in> set ''.+*?()|[]{}^$'')"

definition regexp_QuoteMeta :: "string \<Rightarrow> string" where
  "regexp_QuoteMeta s = concat (map (\<lambda>c. if special c then [CHR 0x5C, c] else [c]) s)"

text \<open>
  \<open>string(c)\<close> for a byte \<open>c\<close> is the UTF-8 encoding of the code point \<open>c\<close>: the byte
  itself below \<open>0x80\<close>, two bytes from \<open>0x80\<close> on.
\<close>

definition string_of_byte :: "char \<Rightarrow> string" where
  "string_of_byte c =
     (let n = of_char c :: nat in
      if n < 0x80 then [c]
      else [char_of (0xC0 + n div 0x40), char_of (0x80 + n mod 0x40)])"

section \<open>The regular expression engine as a collaborator\<close>

text \<open>
  \<open>github.com/dlclark/regexp2\<close> is not part of the repository. The matcher uses two of
  its operations: \<open>regexp2.Compile(expr, regexp2.RE2)\<close> and \<open>(*Regexp).MatchString\<close> on a
  compiled expression whose \<open>MatchTimeout\<close> is \<open>regexp2MatchTimeout\<close> (250 ms). They are
  the two fields of this record; \<open>MatchString\<close> may answer with an error (the timeout).
\<close>

record 're regexp2 =
  Compile :: "string \<Rightarrow> error + 're"
  MatchString :: "'re \<Rightarrow> string \<Rightarrow> error + bool"

section \<open>The template compiler\<close>

text \<open>
  \<open>delimiterIndices\<close>: the loop over \<open>i\<close> with its locals \<open>level\<close>, \<open>idx\<close> and \<open>idxs\<close>.
  The \<open>switch\<close> takes the first case that matches, so a byte equal to both delimiters
  counts as \<open>delimiterStart\<close>.
\<close>

fun delimiterIndices_loop ::
  "string \<Rightarrow> char \<Rightarrow> char \<Rightarrow> string \<Rightarrow> nat \<Rightarrow> int \<Rightarrow> nat \<Rightarrow> nat list \<Rightarrow> error + (int \<times> nat list)" where
  "delimiterIndices_loop s ds de [] i level idx idxs = Inr (level, idxs)"
| "delimiterIndices_loop s ds de (c # cs) i level idx idxs =
     (if c = ds then
        (if level + 1 = 1 then delimiterIndices_loop s ds de cs (i + 1) (level + 1) i idxs
         else delimiterIndices_loop s ds de cs (i + 1) (level + 1) idx idxs)
      else if c = de then
        (if level - 1 = 0 then delimiterIndices_loop s ds de cs (i + 1) (level - 1) idx (idxs @ [idx, i + 1])
         else if level - 1 < 0 then Inl (Unbalanced s)
         else delimiterIndices_loop s ds de cs (i + 1) (level - 1) idx idxs)
      else delimiterIndices_loop s ds de cs (i + 1) level idx idxs)"

definition delimiterIndices :: "string \<Rightarrow> char \<Rightarrow> char \<Rightarrow> error + nat list" where
  "delimiterIndices s ds de =
     (case delimiterIndices_loop s ds de s 0 0 0 [] of
        Inl e \<Rightarrow> Inl e
      | Inr (level, idxs) \<Rightarrow> if level \<noteq> 0 then Inl (Unbalanced s) else Inr idxs)"

text \<open>The slice \<open>s[a:b]\<close>, on indices within the string.\<close>

definition slice :: "string \<Rightarrow> nat \<Rightarrow> nat \<Rightarrow> string" where
  "slice s a b = take (b - a) (drop a s)"

text \<open>
  \<open>CompileRegex\<close>. Of Go's \<open>(*Regexp, error)\<close> exactly one is nil: the result is a sum.
  Next to it the model returns the list of the expressions handed to \<open>regexp2.Compile\<close>,
  in order: the function's only effect. The loop walks \<open>idxs\<close>, which holds pairs, two
  at a time with the locals \<open>end\<close> and \<open>pattern\<close>; the slice \<open>varsR\<close> it fills is
  never read.
\<close>

fun CompileRegex_loop ::
  "'re regexp2 \<Rightarrow> string \<Rightarrow> nat list \<Rightarrow> nat \<Rightarrow> string \<Rightarrow> string list
     \<Rightarrow> (error + 're) \<times> string list" where
  "CompileRegex_loop E tpl (a # b # idxs) end pattern log =
     (let raw = slice tpl end a;
          patt = slice tpl (a + 1) (b - 1);
          pattern' = pattern @ regexp_QuoteMeta raw @ ''('' @ patt @ '')'';
          expr = ''^'' @ patt @ ''$''
      in case Compile E expr of
           Inl err \<Rightarrow> (Inl err, log @ [expr])
         | Inr reg \<Rightarrow> CompileRegex_loop E tpl idxs b pattern' (log @ [expr]))"
| "CompileRegex_loop E tpl idxs end pattern log =
     (let raw = drop end tpl;
          expr = pattern @ regexp_QuoteMeta raw @ ''$''
      in (Compile E expr, log @ [expr]))"

definition CompileRegex ::
  "'re regexp2 \<Rightarrow> string \<Rightarrow> char \<Rightarrow> char \<Rightarrow> (error + 're) \<times> string list" where
  "CompileRegex E tpl delimiterStart delimiterEnd =
     (case delimiterIndices tpl delimiterStart delimiterEnd of
        Inl errBraces \<Rightarrow> (Inl errBraces, [])
      | Inr idxs \<Rightarrow> CompileRegex_loop E tpl idxs 0 ''^'' [])"

text \<open>
  The balance rule in the specification's words, independent of the code: a counter,
  one up on an open delimiter, one down on a close delimiter. A close with the counter
  at zero is \<open>None\<close>; otherwise the result is the counter that remains, and the
  template is balanced when that is \<open>Some 0\<close>.
\<close>

fun nesting :: "char \<Rightarrow> char \<Rightarrow> nat \<Rightarrow> string \<Rightarrow> nat option" where
  "nesting ds de n [] = Some n"
| "nesting ds de n (c # cs) =
     (if c = ds then nesting ds de (Suc n) cs
      else if c = de then (case n of 0 \<Rightarrow> None | Suc k \<Rightarrow> nesting ds de k cs)
      else nesting ds de n cs)"

section \<open>The pattern cache\<close>

text \<open>
  \<open>github.com/hashicorp/golang-lru\<close>: a cache of fixed size; the entries are kept most
  recently used first. \<open>Get\<close> moves the entry it finds to the front; \<open>Add\<close> updates and
  moves an existing entry, or puts a new one in front and drops the oldest entry when
  the size is exceeded.
\<close>

record 're lru_Cache =
  cache_size :: nat
  items :: "(string \<times> 're) list"

definition lru_New :: "nat \<Rightarrow> 're lru_Cache" where
  "lru_New n = \<lparr>cache_size = n, items = []\<rparr>"

definition without :: "string \<Rightarrow> (string \<times> 're) list \<Rightarrow> (string \<times> 're) list" where
  "without k xs = filter (\<lambda>kv. fst kv \<noteq> k) xs"

definition lru_Get :: "'re lru_Cache \<Rightarrow> string \<Rightarrow> 're option \<times> 're lru_Cache" where
  "lru_Get c k =
     (case map_of (items c) k of
        None \<Rightarrow> (None, c)
      | Some v \<Rightarrow> (Some v, c\<lparr>items := (k, v) # without k (items c)\<rparr>))"

definition lru_Add :: "'re lru_Cache \<Rightarrow> string \<Rightarrow> 're \<Rightarrow> 're lru_Cache" where
  "lru_Add c k v =
     (case map_of (items c) k of
        Some old \<Rightarrow> c\<lparr>items := (k, v) # without k (items c)\<rparr>
      | None \<Rightarrow>
          (let xs = (k, v) # items c
           in c\<lparr>items := (if length xs > cache_size c then butlast xs else xs)\<rparr>))"

section \<open>The pattern matcher\<close>

text \<open>
  \<open>RegexpMatcher\<close> embeds the cache; its field \<open>C\<close> is never read or written. The cache
  holds the values \<open>set\<close> stores, compiled expressions, so the second type assertion
  of \<open>get\<close> succeeds on every entry.
\<close>

type_synonym 're RegexpMatcher = "'re lru_Cache"

definition NewRegexpMatcher :: "int \<Rightarrow> 're RegexpMatcher" where
  "NewRegexpMatcher n = (if n \<le> 0 then lru_New 512 else lru_New (nat n))"

definition get :: "'re RegexpMatcher \<Rightarrow> string \<Rightarrow> 're option \<times> 're RegexpMatcher" where
  "get m pattern = lru_Get m pattern"

definition set_cache :: "'re RegexpMatcher \<Rightarrow> string \<Rightarrow> 're \<Rightarrow> 're RegexpMatcher" where
  "set_cache m pattern reg = lru_Add m pattern reg"

text \<open>\<open>CompileWildcardRegex\<close>: the expression written to \<open>buf\<close>, then compiled.\<close>

definition wildcard_expr :: "string \<Rightarrow> string" where
  "wildcard_expr pattern =
     ''^'' @ concat (map (\<lambda>c. if c = CHR ''*'' then ''.*''
                                else regexp_QuoteMeta (string_of_byte c)) pattern) @ ''$''"

definition CompileWildcardRegex :: "'re regexp2 \<Rightarrow> string \<Rightarrow> error + 're" where
  "CompileWildcardRegex E pattern = Compile E (wildcard_expr pattern)"

text \<open>
  \<open>matches\<close>: the loop over the haystack. The matcher is passed in and returned, since
  \<open>get\<close> and \<open>set\<close> change the cache.
\<close>

fun matches ::
  "'re regexp2 \<Rightarrow> 're RegexpMatcher \<Rightarrow> string \<Rightarrow> string list
     \<Rightarrow> (bool \<times> error option) \<times> 're RegexpMatcher" where
  "matches E m needle [] = ((False, None), m)"
| "matches E m needle (h # haystack) =
     (if \<not> strings_Contains h ''*'' then
        (if h = needle then ((True, None), m) else matches E m needle haystack)
      else
        (case get m h of
           (Some reg, m1) \<Rightarrow>
             (case MatchString E reg needle of
                Inl err \<Rightarrow> ((False, Some (WithStack err)), m1)
              | Inr matched \<Rightarrow>
                  if matched then ((True, None), m1) else matches E m1 needle haystack)
         | (None, m1) \<Rightarrow>
             (case CompileWildcardRegex E h of
                Inl err \<Rightarrow> ((False, Some (WithStack err)), m1)
              | Inr reg \<Rightarrow>
                  (let m2 = set_cache m1 h reg
                   in case MatchString E reg needle of
                        Inl err \<Rightarrow> ((False, Some (WithStack err)), m2)
                      | Inr matched \<Rightarrow>
                          if matched then ((True, None), m2) else matches E m2 needle haystack))))"

definition Matches ::
  "'re regexp2 \<Rightarrow> 're RegexpMatcher \<Rightarrow> string \<Rightarrow> string
     \<Rightarrow> (bool \<times> error option) \<times> 're RegexpMatcher" where
  "Matches E m key1 key2 = matches E m key1 (strings_Split key2 CHR '','')"

definition MustMatch ::
  "'re regexp2 \<Rightarrow> 're RegexpMatcher \<Rightarrow> string \<Rightarrow> string \<Rightarrow> bool \<times> 're RegexpMatcher" where
  "MustMatch E m key1 key2 =
     (case Matches E m key1 key2 of
        ((ok, Some err), m') \<Rightarrow> (False, m')
      | ((ok, None), m') \<Rightarrow> (ok, m'))"

section \<open>A model of the engine on wildcard expressions\<close>

text \<open>
  \<open>regexp2\<close> works on runes: \<open>MatchString\<close> converts its input with \<open>[]rune(s)\<close>, and
  the parser reads the expression the same way. The conversion decodes UTF-8; a byte
  that starts no valid encoding gives \<open>U+FFFD\<close> and is one byte wide.
\<close>

definition cont :: "nat \<Rightarrow> bool" where
  "cont b = (0x80 \<le> b \<and> b \<le> 0xBF)"

definition RuneError :: nat where
  "RuneError = 0xFFFD"

fun DecodeRune :: "nat list \<Rightarrow> nat \<times> nat" where
  "DecodeRune [] = (RuneError, 0)"
| "DecodeRune (b0 # bs) =
     (if b0 < 0x80 then (b0, 1)
      else if 0xC2 \<le> b0 \<and> b0 \<le> 0xDF then
        (case bs of
           b1 # _ \<Rightarrow> if cont b1 then ((b0 - 0xC0) * 0x40 + (b1 - 0x80), 2) else (RuneError, 1)
         | _ \<Rightarrow> (RuneError, 1))
      else if 0xE0 \<le> b0 \<and> b0 \<le> 0xEF then
        (case bs of
           b1 # b2 # _ \<Rightarrow>
             if (if b0 = 0xE0 then 0xA0 else 0x80) \<le> b1
                \<and> b1 \<le> (if b0 = 0xED then 0x9F else 0xBF) \<and> cont b2
             then (((b0 - 0xE0) * 0x40 + (b1 - 0x80)) * 0x40 + (b2 - 0x80), 3)
             else (RuneError, 1)
         | _ \<Rightarrow> (RuneError, 1))
      else if 0xF0 \<le> b0 \<and> b0 \<le> 0xF4 then
        (case bs of
           b1 # b2 # b3 # _ \<Rightarrow>
             if (if b0 = 0xF0 then 0x90 else 0x80) \<le> b1
                \<and> b1 \<le> (if b0 = 0xF4 then 0x8F else 0xBF) \<and> cont b2 \<and> cont b3
             then ((((b0 - 0xF0) * 0x40 + (b1 - 0x80)) * 0x40 + (b2 - 0x80)) * 0x40
                     + (b3 - 0x80), 4)
             else (RuneError, 1)
         | _ \<Rightarrow> (RuneError, 1))
      else (RuneError, 1))"

function runes_of_bytes :: "nat list \<Rightarrow> nat list" where
  "runes_of_bytes [] = []"
| "runes_of_bytes (b # bs) =
     fst (DecodeRune (b # bs)) # runes_of_bytes (drop (snd (DecodeRune (b # bs)) - 1) bs)"
  by pat_completeness auto
termination
  by (relation "measure length") auto

definition runes :: "string \<Rightarrow> nat list" where
  "runes s = runes_of_bytes (map of_char s)"

text \<open>
  The expressions \<open>CompileWildcardRegex\<close> writes are made of four things: \<open>^\<close> in front,
  \<open>$\<close> at the end, \<open>.*\<close>, and single runes, a metacharacter among them behind a
  backslash. The model of \<open>regexp2.Compile(expr, regexp2.RE2)\<close> reads exactly these;
  an expression of any other shape is outside the model and is answered with
  \<open>RegexSyntax\<close>. Without the \<open>Singleline\<close> option \<open>.\<close> is every rune but the newline;
  with the \<open>RE2\<close> option and without \<open>Multiline\<close>, \<open>$\<close> is the end of the input.
\<close>

datatype node =
    Lit nat        \<comment> \<open>one rune, itself\<close>
  | AnyStar        \<comment> \<open>\<open>.*\<close>: any number of runes other than \<open>U+000A\<close>\<close>

definition special_rune :: "nat \<Rightarrow> bool" where
  "special_rune r = (r \<in> set (map of_char (CHR 0x5C # ''.+*?()|[]{}^$'')))"

fun parse_items :: "nat list \<Rightarrow> node list option" where
  "parse_items [] = None"
| "parse_items [r] = (if r = 0x24 then Some [] else None)"
| "parse_items (r # r' # rs) =
     (if r = 0x2E \<and> r' = 0x2A then map_option (Cons AnyStar) (parse_items rs)
      else if r = 0x5C \<and> special_rune r' then map_option (Cons (Lit r')) (parse_items rs)
      else if special_rune r then None
      else map_option (Cons (Lit r)) (parse_items (r' # rs)))"

definition parse :: "string \<Rightarrow> node list option" where
  "parse expr =
     (case runes expr of
        [] \<Rightarrow> None
      | r # rs \<Rightarrow> if r = 0x5E then parse_items rs else None)"

text \<open>The anchored match: the nodes must use up the whole input.\<close>

fun run :: "node list \<Rightarrow> nat list \<Rightarrow> bool" where
  "run [] rs = (rs = [])"
| "run (Lit c # ns) [] = False"
| "run (Lit c # ns) (r # rs) = (r = c \<and> run ns rs)"
| "run (AnyStar # ns) [] = run ns []"
| "run (AnyStar # ns) (r # rs) = ((r \<noteq> 0x0A \<and> run (AnyStar # ns) rs) \<or> run ns (r # rs))"

text \<open>
  Whether a match runs past its 250 ms depends on the machine and the moment, not on
  the program: it is the parameter \<open>timeout\<close>.
\<close>

definition regexp2_wild :: "(node list \<Rightarrow> string \<Rightarrow> bool) \<Rightarrow> node list regexp2" where
  "regexp2_wild timeout =
     \<lparr>Compile = (\<lambda>expr. case parse expr of
                            None \<Rightarrow> Inl (RegexSyntax expr)
                          | Some re \<Rightarrow> Inr re),
      MatchString = (\<lambda>re s. if timeout re s then Inl MatchTimeout
                             else Inr (run re (runes s)))\<rparr>"

definition in_time :: "node list \<Rightarrow> string \<Rightarrow> bool" where
  "in_time re s = False"

definition too_slow :: "node list \<Rightarrow> string \<Rightarrow> bool" where
  "too_slow re s = True"

text \<open>
  The compile-then-evaluate path on its own, with no cache: what \<open>matches\<close> does when
  \<open>get\<close> finds nothing, without the \<open>set\<close>.
\<close>

fun matches_compiling :: "'re regexp2 \<Rightarrow> string \<Rightarrow> string list \<Rightarrow> bool \<times> error option" where
  "matches_compiling E needle [] = (False, None)"
| "matches_compiling E needle (h # haystack) =
     (if \<not> strings_Contains h ''*'' then
        (if h = needle then (True, None) else matches_compiling E needle haystack)
      else
        (case CompileWildcardRegex E h of
           Inl err \<Rightarrow> (False, Some (WithStack err))
         | Inr reg \<Rightarrow>
             (case MatchString E reg needle of
                Inl err \<Rightarrow> (False, Some (WithStack err))
              | Inr matched \<Rightarrow>
                  if matched then (True, None) else matches_compiling E needle haystack)))"

text \<open>
  The states of the matcher a program can reach. The cache is written by \<open>get\<close> and
  \<open>set\<close> only, and \<open>set\<close> is called in one place, with the expression just compiled
  from the pattern. So the states are: a new matcher, and a reachable one after a \<open>get\<close>
  or after such a \<open>set\<close>, in any order and for any patterns, as the calls of any
  number of callers may interleave them.
\<close>

inductive reachable :: "'re regexp2 \<Rightarrow> 're RegexpMatcher \<Rightarrow> bool" for E :: "'re regexp2" where
  new: "reachable E (NewRegexpMatcher n)"
| got: "reachable E m \<Longrightarrow> reachable E (snd (get m pattern))"
| stored: "reachable E m \<Longrightarrow> CompileWildcardRegex E pattern = Inr reg
             \<Longrightarrow> reachable E (set_cache m pattern reg)"


section \<open>Dynamically typed values\<close>

text \<open>
  A value of type \<open>interface{}\<close> carries its dynamic type. These are the dynamic types
  the condition evaluator meets: what \<open>json.Unmarshal\<close> stores into an \<open>any\<close> (nil,
  \<open>bool\<close>, \<open>float64\<close>, \<open>string\<close>, \<open>[]interface{}\<close>, \<open>map[string]interface{}\<close>), the
  \<open>[]string\<close> of a \<open>ConditionValue\<close>, and the types the comparison functions assert
  (\<open>int\<close>, \<open>[]int\<close>, \<open>[]bool\<close>). A \<open>float64\<close> is its 64 bits; an \<open>int\<close> is a signed
  64-bit integer.
\<close>

type_synonym float64 = "64 word"

type_synonym go_int = "64 word"

datatype iface =
    VNil
  | VBool bool
  | VFloat64 float64
  | VString string
  | VInt go_int
  | VStrings "string list"
  | VInts "go_int list"
  | VBools "bool list"
  | VSlice "iface list"
  | VMap "(string \<times> iface) list"

text \<open>The type assertions \<open>x.(string)\<close>, \<open>x.([]string)\<close>, \<open>x.(int)\<close>, \<open>x.([]int)\<close>,
  \<open>x.(bool)\<close> and \<open>x.([]bool)\<close>: the value, or a panic.\<close>

definition as_string :: "iface \<Rightarrow> panic + string" where
  "as_string x = (case x of VString s \<Rightarrow> Inr s | _ \<Rightarrow> Inl TypeAssertion)"

definition as_strings :: "iface \<Rightarrow> panic + string list" where
  "as_strings x = (case x of VStrings ss \<Rightarrow> Inr ss | _ \<Rightarrow> Inl TypeAssertion)"

definition as_int :: "iface \<Rightarrow> panic + go_int" where
  "as_int x = (case x of VInt n \<Rightarrow> Inr n | _ \<Rightarrow> Inl TypeAssertion)"

definition as_ints :: "iface \<Rightarrow> panic + go_int list" where
  "as_ints x = (case x of VInts ns \<Rightarrow> Inr ns | _ \<Rightarrow> Inl TypeAssertion)"

definition as_bool :: "iface \<Rightarrow> panic + bool" where
  "as_bool x = (case x of VBool b \<Rightarrow> Inr b | _ \<Rightarrow> Inl TypeAssertion)"

definition as_bools :: "iface \<Rightarrow> panic + bool list" where
  "as_bools x = (case x of VBools bs \<Rightarrow> Inr bs | _ \<Rightarrow> Inl TypeAssertion)"

text \<open>Two statements in sequence, the second running only if the first did not panic.\<close>

definition and_then :: "panic + 'a \<Rightarrow> ('a \<Rightarrow> panic + 'b) \<Rightarrow> panic + 'b" where
  "and_then r f = (case r of Inl p \<Rightarrow> Inl p | Inr v \<Rightarrow> f v)"

section \<open>The comparison functions\<close>

type_synonym ConditionOperatorFunc = "iface \<Rightarrow> iface \<Rightarrow> panic + bool"

fun anyMatch :: "'a \<Rightarrow> 'a list \<Rightarrow> ('a \<Rightarrow> 'a \<Rightarrow> bool) \<Rightarrow> bool" where
  "anyMatch value [] compareFn = False"
| "anyMatch value (v # values) compareFn =
     (if compareFn value v then True else anyMatch value values compareFn)"

definition equals :: "'a \<Rightarrow> 'a list \<Rightarrow> bool" where
  "equals value values = anyMatch value values (\<lambda>a b. a = b)"

definition notEquals :: "'a \<Rightarrow> 'a list \<Rightarrow> bool" where
  "notEquals value values = anyMatch value values (\<lambda>a b. a \<noteq> b)"

text \<open>The four ordered comparisons are used at \<open>int\<close> only, where \<open><\<close> is the signed order.\<close>

definition lessThan_int :: "go_int \<Rightarrow> go_int list \<Rightarrow> bool" where
  "lessThan_int value values = anyMatch value values (\<lambda>a b. a <s b)"

definition lessThanEquals_int :: "go_int \<Rightarrow> go_int list \<Rightarrow> bool" where
  "lessThanEquals_int value values = anyMatch value values (\<lambda>a b. a \<le>s b)"

definition greaterThan_int :: "go_int \<Rightarrow> go_int list \<Rightarrow> bool" where
  "greaterThan_int value values = anyMatch value values (\<lambda>a b. b <s a)"

definition greaterThanEquals_int :: "go_int \<Rightarrow> go_int list \<Rightarrow> bool" where
  "greaterThanEquals_int value values = anyMatch value values (\<lambda>a b. b \<le>s a)"

text \<open>
  \<open>strings.EqualFold\<close> compares rune by rune under simple case folding. The model folds
  the letters of ASCII; the folding of letters beyond ASCII is not part of it.
\<close>

definition fold_rune :: "nat \<Rightarrow> nat" where
  "fold_rune r = (if 0x41 \<le> r \<and> r \<le> 0x5A then r + 0x20 else r)"

definition strings_EqualFold :: "string \<Rightarrow> string \<Rightarrow> bool" where
  "strings_EqualFold a b = (map fold_rune (runes a) = map fold_rune (runes b))"

definition StringEqualsFunc :: ConditionOperatorFunc where
  "StringEqualsFunc param1 param2 =
     and_then (as_string param1) (\<lambda>value.
     and_then (as_strings param2) (\<lambda>values.
     Inr (equals value values)))"

definition StringNotEqualsFunc :: ConditionOperatorFunc where
  "StringNotEqualsFunc param1 param2 =
     and_then (as_string param1) (\<lambda>value.
     and_then (as_strings param2) (\<lambda>values.
     Inr (notEquals value values)))"

definition StringEqualsIgnoreCaseFunc :: ConditionOperatorFunc where
  "StringEqualsIgnoreCaseFunc param1 param2 =
     and_then (as_string param1) (\<lambda>value.
     and_then (as_strings param2) (\<lambda>values.
     Inr (anyMatch value values (\<lambda>a b. strings_EqualFold a b))))"

definition StringNotEqualsIgnoreCaseFunc :: ConditionOperatorFunc where
  "StringNotEqualsIgnoreCaseFunc param1 param2 =
     and_then (as_string param1) (\<lambda>value.
     and_then (as_strings param2) (\<lambda>values.
     Inr (anyMatch value values (\<lambda>a b. \<not> strings_EqualFold a b))))"

definition StringLikeFunc :: ConditionOperatorFunc where
  "StringLikeFunc param1 param2 =
     and_then (as_string param1) (\<lambda>value.
     and_then (as_strings param2) (\<lambda>values.
     Inr (anyMatch value values (\<lambda>a b. strings_Contains a b))))"

definition StringNotLikeFunc :: ConditionOperatorFunc where
  "StringNotLikeFunc param1 param2 =
     and_then (as_string param1) (\<lambda>value.
     and_then (as_strings param2) (\<lambda>values.
     Inr (anyMatch value values (\<lambda>a b. \<not> strings_Contains a b))))"

definition NumericEqualsFunc :: ConditionOperatorFunc where
  "NumericEqualsFunc param1 param2 =
     and_then (as_int param1) (\<lambda>value.
     and_then (as_ints param2) (\<lambda>values.
     Inr (equals value values)))"

definition NumericNotEqualsFunc :: ConditionOperatorFunc where
  "NumericNotEqualsFunc param1 param2 =
     and_then (as_int param1) (\<lambda>value.
     and_then (as_ints param2) (\<lambda>values.
     Inr (notEquals value values)))"

definition NumericLessThanFunc :: ConditionOperatorFunc where
  "NumericLessThanFunc param1 param2 =
     and_then (as_int param1) (\<lambda>value.
     and_then (as_ints param2) (\<lambda>values.
     Inr (lessThan_int value values)))"

definition NumericLessThanEqualsFunc :: ConditionOperatorFunc where
  "NumericLessThanEqualsFunc param1 param2 =
     and_then (as_int param1) (\<lambda>value.
     and_then (as_ints param2) (\<lambda>values.
     Inr (lessThanEquals_int value values)))"

definition NumericGreaterThanFunc :: ConditionOperatorFunc where
  "NumericGreaterThanFunc param1 param2 =
     and_then (as_int param1) (\<lambda>value.
     and_then (as_ints param2) (\<lambda>values.
     Inr (greaterThan_int value values)))"

definition NumericGreaterThanEqualsFunc :: ConditionOperatorFunc where
  "NumericGreaterThanEqualsFunc param1 param2 =
     and_then (as_int param1) (\<lambda>value.
     and_then (as_ints param2) (\<lambda>values.
     Inr (greaterThanEquals_int value values)))"

definition BoolFunc :: ConditionOperatorFunc where
  "BoolFunc param1 param2 =
     and_then (as_bool param1) (\<lambda>value.
     and_then (as_bools param2) (\<lambda>values.
     Inr (equals value values)))"

section \<open>Timestamps\<close>

text \<open>
  A \<open>time.Time\<close> is an instant; \<open>Equal\<close>, \<open>Before\<close> and \<open>After\<close> compare instants and
  ignore the location. The model keeps the seconds since \<open>0001-01-01T00:00:00Z\<close> and
  the nanoseconds within the second. The zero value \<open>Time{}\<close> is that first instant.
\<close>

datatype Time = Instant (seconds: int) (nanos: int)

definition zero_Time :: Time where
  "zero_Time = Instant 0 0"

definition Time_Equal :: "Time \<Rightarrow> Time \<Rightarrow> bool" where
  "Time_Equal t u = (seconds t = seconds u \<and> nanos t = nanos u)"

definition Time_Before :: "Time \<Rightarrow> Time \<Rightarrow> bool" where
  "Time_Before t u = (seconds t < seconds u \<or> (seconds t = seconds u \<and> nanos t < nanos u))"

definition Time_After :: "Time \<Rightarrow> Time \<Rightarrow> bool" where
  "Time_After t u = (seconds t > seconds u \<or> (seconds t = seconds u \<and> nanos t > nanos u))"

definition isDigit :: "char \<Rightarrow> bool" where
  "isDigit c = (0x30 \<le> (of_char c :: nat) \<and> (of_char c :: nat) \<le> 0x39)"

definition digit :: "char \<Rightarrow> int" where
  "digit c = of_char c - 0x30"

definition decimal :: "string \<Rightarrow> int" where
  "decimal s = foldl (\<lambda>x c. x * 10 + digit c) 0 s"

text \<open>\<open>parseUint\<close> of \<open>parseRFC3339\<close>: decimal digits only, and a value within the range.\<close>

definition parseUint :: "string \<Rightarrow> int \<Rightarrow> int \<Rightarrow> int option" where
  "parseUint s lo hi =
     (if list_all isDigit s \<and> lo \<le> decimal s \<and> decimal s \<le> hi then Some (decimal s) else None)"

definition isLeap :: "int \<Rightarrow> bool" where
  "isLeap year = (year mod 4 = 0 \<and> (year mod 100 \<noteq> 0 \<or> year mod 400 = 0))"

definition daysIn :: "int \<Rightarrow> int \<Rightarrow> int" where
  "daysIn month year =
     (if month = 2 then (if isLeap year then 29 else 28)
      else if month \<in> {4, 6, 9, 11} then 30 else 31)"

definition daysBefore :: "int \<Rightarrow> int \<Rightarrow> int" where
  "daysBefore month year = sum_list (map (\<lambda>m. daysIn m year) [1..month - 1])"

text \<open>\<open>time.Date(year, month, day, hour, min, sec, nsec, time.UTC)\<close> on values in range.\<close>

definition Date :: "int \<Rightarrow> int \<Rightarrow> int \<Rightarrow> int \<Rightarrow> int \<Rightarrow> int \<Rightarrow> int \<Rightarrow> Time" where
  "Date year month day hour minute sec nsec =
     (let y = year - 1;
          days = 365 * y + y div 4 - y div 100 + y div 400 + daysBefore month year + day - 1
      in Instant (((days * 24 + hour) * 60 + minute) * 60 + sec) nsec)"

text \<open>
  The fraction of a second: the digits after the point, of which the first nine count,
  read as nanoseconds.
\<close>

definition parseNanoseconds :: "string \<Rightarrow> int" where
  "parseNanoseconds ds = decimal (take 9 ds) * 10 ^ (9 - length (take 9 ds))"

text \<open>
  The zone: \<open>Z\<close>, or a sign, two digits of hours up to 23, a colon and two digits of
  minutes up to 59. The result is the offset in seconds east of UTC.
\<close>

definition parseZone :: "string \<Rightarrow> int option" where
  "parseZone s =
     (if s = ''Z'' then Some 0
      else if length s \<noteq> 6 then None
      else (case (parseUint (take 2 (drop 1 s)) 0 23, parseUint (take 2 (drop 4 s)) 0 59) of
              (Some hr, Some mm) \<Rightarrow>
                if (s ! 0 = CHR ''-'' \<or> s ! 0 = CHR ''+'') \<and> s ! 3 = CHR '':''
                then Some ((if s ! 0 = CHR ''-'' then - 1 else 1) * ((hr * 60 + mm) * 60))
                else None
            | _ \<Rightarrow> None))"

text \<open>
  \<open>time.Parse(time.RFC3339, s)\<close> first reads the text with the library's
  \<open>parseRFC3339\<close>: \<open>YYYY-MM-DDTHH:MM:SS\<close>, an optional fraction after a point, and the
  zone.
\<close>

definition parseRFC3339 :: "string \<Rightarrow> Time option" where
  "parseRFC3339 s =
     (if length s < 19 then None
      else
        (case (parseUint (take 4 s) 0 9999, parseUint (take 2 (drop 5 s)) 1 12) of
           (Some year, Some month) \<Rightarrow>
             (case (parseUint (take 2 (drop 8 s)) 1 (daysIn month year),
                    parseUint (take 2 (drop 11 s)) 0 23,
                    parseUint (take 2 (drop 14 s)) 0 59,
                    parseUint (take 2 (drop 17 s)) 0 59) of
                (Some day, Some hour, Some minute, Some sec) \<Rightarrow>
                  if s ! 4 = CHR ''-'' \<and> s ! 7 = CHR ''-'' \<and> s ! 10 = CHR ''T''
                     \<and> s ! 13 = CHR '':'' \<and> s ! 16 = CHR '':''
                  then
                    (let rest = drop 19 s;
                         frac = (if length rest \<ge> 2 \<and> rest ! 0 = CHR ''.'' \<and> isDigit (rest ! 1)
                                 then takeWhile isDigit (drop 1 rest) else []);
                         nsec = (if frac = [] then 0 else parseNanoseconds frac);
                         zone = (if frac = [] then rest else drop (1 + length frac) rest)
                     in case parseZone zone of
                          None \<Rightarrow> None
                        | Some zoneOffset \<Rightarrow>
                            (case Date year month day hour minute sec nsec of
                               Instant t n \<Rightarrow> Some (Instant (t - zoneOffset) n)))
                  else None
              | _ \<Rightarrow> None)
         | _ \<Rightarrow> None))"

text \<open>
  Where \<open>parseRFC3339\<close> fails, \<open>time.Parse\<close> reads the text against the layout
  \<open>2006-01-02T15:04:05Z07:00\<close> with its general parser. \<open>getnum\<close> reads two digits, or
  one digit where the field is not of fixed width and no second digit follows; only
  the hour is of that kind.
\<close>

definition getnum :: "string \<Rightarrow> bool \<Rightarrow> (int \<times> string) option" where
  "getnum s fixed =
     (case s of
        [] \<Rightarrow> None
      | c0 # rest \<Rightarrow>
          if \<not> isDigit c0 then None
          else (case rest of
                  [] \<Rightarrow> if fixed then None else Some (digit c0, rest)
                | c1 # rest' \<Rightarrow>
                    if \<not> isDigit c1 then (if fixed then None else Some (digit c0, rest))
                    else Some (digit c0 * 10 + digit c1, rest')))"

text \<open>A literal byte of the layout: the text must go on with it.\<close>

definition skip :: "string \<Rightarrow> char \<Rightarrow> string option" where
  "skip s c = (case s of [] \<Rightarrow> None | x # rest \<Rightarrow> if x = c then Some rest else None)"

text \<open>
  The zone of the layout, \<open>Z07:00\<close>: the letter \<open>Z\<close>, or a sign, two digits, a colon and
  two digits, the hours up to 24 and the minutes up to 60. The result is the offset in
  seconds east of UTC and the rest of the text.
\<close>

definition layoutZone :: "string \<Rightarrow> (int \<times> string) option" where
  "layoutZone s =
     (if length s \<ge> 1 \<and> s ! 0 = CHR ''Z'' then Some (0, drop 1 s)
      else if length s < 6 then None
      else if s ! 3 \<noteq> CHR '':'' then None
      else (case (getnum (take 2 (drop 1 s)) True, getnum (take 2 (drop 4 s)) True) of
              (Some (hr, r1), Some (mm, r2)) \<Rightarrow>
                if hr > 24 \<or> mm > 60 then None
                else if s ! 0 = CHR ''+'' then Some ((hr * 60 + mm) * 60, drop 6 s)
                else if s ! 0 = CHR ''-'' then Some (- ((hr * 60 + mm) * 60), drop 6 s)
                else None
            | _ \<Rightarrow> None))"

text \<open>
  The general parser on this layout, field by field. After the seconds it takes a
  fraction that the layout does not name, behind a point or a comma. Text left over
  after the zone is an error.
\<close>

definition parseLayout :: "string \<Rightarrow> Time option" where
  "parseLayout s =
     (if length s < 4 \<or> \<not> list_all isDigit (take 4 s) then None
      else
        Option.bind (skip (drop 4 s) CHR ''-'') (\<lambda>s1.
        Option.bind (getnum s1 True) (\<lambda>(month, s2).
        Option.bind (skip s2 CHR ''-'') (\<lambda>s3.
        Option.bind (getnum s3 True) (\<lambda>(day, s4).
        Option.bind (skip s4 CHR ''T'') (\<lambda>s5.
        Option.bind (getnum s5 False) (\<lambda>(hour, s6).
        Option.bind (skip s6 CHR '':'') (\<lambda>s7.
        Option.bind (getnum s7 True) (\<lambda>(minute, s8).
        Option.bind (skip s8 CHR '':'') (\<lambda>s9.
        Option.bind (getnum s9 True) (\<lambda>(sec, s10).
          (let year = decimal (take 4 s);
               frac = (if length s10 \<ge> 2 \<and> (s10 ! 0 = CHR ''.'' \<or> s10 ! 0 = CHR '','')
                          \<and> isDigit (s10 ! 1)
                       then takeWhile isDigit (drop 1 s10) else []);
               nsec = (if frac = [] then 0 else parseNanoseconds frac);
               s11 = (if frac = [] then s10 else drop (1 + length frac) s10)
           in Option.bind (layoutZone s11) (\<lambda>(zoneOffset, s12).
                if s12 \<noteq> [] then None
                else if month < 1 \<or> 12 < month \<or> 24 \<le> hour \<or> 60 \<le> minute \<or> 60 \<le> sec
                then None
                else if day < 1 \<or> day > daysIn month year then None
                else (case Date year month day hour minute sec nsec of
                        Instant t n \<Rightarrow> Some (Instant (t - zoneOffset) n)))))))))))))))"

text \<open>
  \<open>time.Parse(time.RFC3339, s)\<close>: the first reading, then the second. When both fail
  the result is the zero \<open>Time\<close> and an error.
\<close>

definition time_Parse :: "string \<Rightarrow> Time \<times> error option" where
  "time_Parse s =
     (case parseRFC3339 s of
        Some t \<Rightarrow> (t, None)
      | None \<Rightarrow>
          (case parseLayout s of
             Some t \<Rightarrow> (t, None)
           | None \<Rightarrow> (zero_Time, Some (ParseError s))))"

text \<open>The date comparisons. Each drops the error of \<open>time.Parse\<close> and keeps the \<open>Time\<close>.\<close>

definition DateEqualsFunc :: ConditionOperatorFunc where
  "DateEqualsFunc param1 param2 =
     and_then (as_string param1) (\<lambda>value.
     and_then (as_strings param2) (\<lambda>values.
     Inr (anyMatch value values (\<lambda>a b.
       let aTime = fst (time_Parse a); bTime = fst (time_Parse b)
       in Time_Equal aTime bTime))))"

definition DateNotEqualsFunc :: ConditionOperatorFunc where
  "DateNotEqualsFunc param1 param2 =
     and_then (as_string param1) (\<lambda>value.
     and_then (as_strings param2) (\<lambda>values.
     Inr (anyMatch value values (\<lambda>a b.
       let aTime = fst (time_Parse a); bTime = fst (time_Parse b)
       in \<not> Time_Equal aTime bTime))))"

definition DateLessThanFunc :: ConditionOperatorFunc where
  "DateLessThanFunc param1 param2 =
     and_then (as_string param1) (\<lambda>value.
     and_then (as_strings param2) (\<lambda>values.
     Inr (anyMatch value values (\<lambda>a b.
       let aTime = fst (time_Parse a); bTime = fst (time_Parse b)
       in Time_Before aTime bTime))))"

definition DateLessThanEqualsFunc :: ConditionOperatorFunc where
  "DateLessThanEqualsFunc param1 param2 =
     and_then (as_string param1) (\<lambda>value.
     and_then (as_strings param2) (\<lambda>values.
     Inr (anyMatch value values (\<lambda>a b.
       let aTime = fst (time_Parse a); bTime = fst (time_Parse b)
       in Time_Before aTime bTime \<or> Time_Equal aTime bTime))))"

definition DateGreaterThanFunc :: ConditionOperatorFunc where
  "DateGreaterThanFunc param1 param2 =
     and_then (as_string param1) (\<lambda>value.
     and_then (as_strings param2) (\<lambda>values.
     Inr (anyMatch value values (\<lambda>a b.
       let aTime = fst (time_Parse a); bTime = fst (time_Parse b)
       in Time_After aTime bTime))))"

definition DateGreaterThanEqualsFunc :: ConditionOperatorFunc where
  "DateGreaterThanEqualsFunc param1 param2 =
     and_then (as_string param1) (\<lambda>value.
     and_then (as_strings param2) (\<lambda>values.
     Inr (anyMatch value values (\<lambda>a b.
       let aTime = fst (time_Parse a); bTime = fst (time_Parse b)
       in Time_After aTime bTime \<or> Time_Equal aTime bTime))))"

section \<open>IP addresses and networks\<close>

text \<open>
  The functions of package \<open>net\<close> the evaluator calls. A \<open>net.IP\<close> is a slice of 4 or
  16 bytes; \<open>net.ParseIP\<close> and \<open>net.ParseCIDR\<close> read the text with \<open>netip.ParseAddr\<close>,
  whose result knows whether the text was IPv4 or IPv6. Both refuse an address with a
  zone (\<open>%\<close>), so the model of \<open>ParseAddr\<close> refuses it at once.
\<close>

type_synonym byte = "8 word"

datatype Addr = Addr4 "byte list" | Addr6 "byte list"

definition v4InV6Prefix :: "byte list" where
  "v4InV6Prefix = [0, 0, 0, 0, 0, 0, 0, 0, 0, 0, 0xFF, 0xFF]"

text \<open>
  \<open>parseIPv4Fields\<close>: four decimal fields between dots, none empty, none above 255,
  none with a leading zero. The locals are the byte before (\<open>None\<close> at the start),
  \<open>val\<close>, \<open>digLen\<close> and the fields read so far (\<open>flds\<close>).
\<close>

fun parseIPv4Fields_loop :: "string \<Rightarrow> char option \<Rightarrow> nat \<Rightarrow> nat \<Rightarrow> byte list \<Rightarrow> byte list option" where
  "parseIPv4Fields_loop [] prev val digLen flds =
     (if length flds < 3 then None else Some (flds @ [of_nat val]))"
| "parseIPv4Fields_loop (c # cs) prev val digLen flds =
     (if isDigit c then
        (if digLen = 1 \<and> val = 0 then None
         else if val * 10 + nat (digit c) > 255 then None
         else parseIPv4Fields_loop cs (Some c) (val * 10 + nat (digit c)) (digLen + 1) flds)
      else if c = CHR ''.'' then
        (if prev = None \<or> cs = [] \<or> prev = Some CHR ''.'' then None
         else if length flds = 3 then None
         else parseIPv4Fields_loop cs (Some c) 0 0 (flds @ [of_nat val]))
      else None)"

definition parseIPv4Fields :: "string \<Rightarrow> byte list option" where
  "parseIPv4Fields s = parseIPv4Fields_loop s None 0 0 []"

definition isHex :: "char \<Rightarrow> bool" where
  "isHex c = (isDigit c \<or> c \<in> set ''abcdef'' \<or> c \<in> set ''ABCDEF'')"

definition hexval :: "char \<Rightarrow> nat" where
  "hexval c =
     (if isDigit c then of_char c - 0x30
      else if c \<in> set ''abcdef'' then of_char c - 0x61 + 10
      else of_char c - 0x41 + 10)"

definition hexadecimal :: "string \<Rightarrow> nat" where
  "hexadecimal s = foldl (\<lambda>acc c. acc * 16 + hexval c) 0 s"

text \<open>
  The loop of \<open>parseIPv6\<close> over the groups. Its locals are the rest of the text, the
  bytes written so far (\<open>i\<close> is their number) and the position of the ellipsis. Every
  turn writes two bytes, so the loop ends.
\<close>

function parseIPv6_loop ::
  "string \<Rightarrow> byte list \<Rightarrow> nat option \<Rightarrow> (string \<times> byte list \<times> nat option) option" where
  "parseIPv6_loop s ip ellipsis =
     (if \<not> length ip < 16 then Some (s, ip, ellipsis)
      else
        (let hex = takeWhile isHex s; off = length hex
         in if off > 4 then None
            else if off = 0 then None
            else if off < length s \<and> s ! off = CHR ''.'' then
              (if ellipsis = None \<and> length ip \<noteq> 12 then None
               else if length ip + 4 > 16 then None
               else (case parseIPv4Fields s of
                       None \<Rightarrow> None
                     | Some flds \<Rightarrow> Some ([], ip @ flds, ellipsis)))
            else
              (let acc = hexadecimal hex;
                   ip' = ip @ [of_nat (acc div 256), of_nat (acc mod 256)];
                   s1 = drop off s
               in if s1 = [] then Some ([], ip', ellipsis)
                  else if hd s1 \<noteq> CHR '':'' then None
                  else if length s1 = 1 then None
                  else if hd (tl s1) = CHR '':'' then
                    (if ellipsis \<noteq> None then None
                     else if tl (tl s1) = [] then Some ([], ip', Some (length ip'))
                     else parseIPv6_loop (tl (tl s1)) ip' (Some (length ip')))
                  else parseIPv6_loop (tl s1) ip' ellipsis)))"
  by pat_completeness auto
termination
  by (relation "measure (\<lambda>(s, ip, ellipsis). 16 - length ip)") auto

definition parseIPv6 :: "string \<Rightarrow> byte list option" where
  "parseIPv6 s =
     (if length s \<ge> 2 \<and> s ! 0 = CHR '':'' \<and> s ! 1 = CHR '':'' \<and> drop 2 s = []
      then Some (replicate 16 0)
      else
        (case (if length s \<ge> 2 \<and> s ! 0 = CHR '':'' \<and> s ! 1 = CHR '':''
               then parseIPv6_loop (drop 2 s) [] (Some 0)
               else parseIPv6_loop s [] None) of
           None \<Rightarrow> None
         | Some (rest, ip, ellipsis) \<Rightarrow>
             if rest \<noteq> [] then None
             else if length ip < 16 then
               (case ellipsis of
                  None \<Rightarrow> None
                | Some e \<Rightarrow> Some (take e ip @ replicate (16 - length ip) 0 @ drop e ip))
             else if ellipsis \<noteq> None then None
             else Some ip))"

text \<open>\<open>netip.ParseAddr\<close>: the first of \<open>.\<close>, \<open>:\<close> and \<open>%\<close> in the text decides how it is read.\<close>

definition ParseAddr :: "string \<Rightarrow> Addr option" where
  "ParseAddr s =
     (case dropWhile (\<lambda>c. c \<noteq> CHR ''.'' \<and> c \<noteq> CHR '':'' \<and> c \<noteq> CHR ''%'') s of
        [] \<Rightarrow> None
      | c # _ \<Rightarrow>
          if c = CHR ''.'' then map_option Addr4 (parseIPv4Fields s)
          else if c = CHR '':'' then
            (if CHR ''%'' \<in> set s then None else map_option Addr6 (parseIPv6 s))
          else None)"

definition As16 :: "Addr \<Rightarrow> byte list" where
  "As16 a = (case a of Addr4 b \<Rightarrow> v4InV6Prefix @ b | Addr6 b \<Rightarrow> b)"

definition BitLen :: "Addr \<Rightarrow> nat" where
  "BitLen a = (case a of Addr4 b \<Rightarrow> 32 | Addr6 b \<Rightarrow> 128)"

text \<open>\<open>net.ParseIP\<close>: the 16-byte form of the address, or nil (\<open>None\<close>).\<close>

definition ParseIP :: "string \<Rightarrow> byte list option" where
  "ParseIP s = map_option As16 (ParseAddr s)"

text \<open>\<open>IP.To4\<close>: the four bytes of an IPv4 address in either form, or nil.\<close>

definition To4 :: "byte list \<Rightarrow> byte list option" where
  "To4 ip =
     (if length ip = 4 then Some ip
      else if length ip = 16 \<and> take 10 ip = replicate 10 0 \<and> ip ! 10 = 0xFF \<and> ip ! 11 = 0xFF
      then Some (drop 12 ip)
      else None)"

definition IP_Equal :: "byte list \<Rightarrow> byte list \<Rightarrow> bool" where
  "IP_Equal ip x =
     (if length ip = length x then ip = x
      else if length ip = 4 \<and> length x = 16 then take 12 x = v4InV6Prefix \<and> ip = drop 12 x
      else if length ip = 16 \<and> length x = 4 then take 12 ip = v4InV6Prefix \<and> drop 12 ip = x
      else False)"

text \<open>\<open>net.CIDRMask(ones, bits)\<close> for \<open>bits\<close> 32 or 128 and \<open>ones\<close> up to \<open>bits\<close>.\<close>

definition CIDRMask :: "nat \<Rightarrow> nat \<Rightarrow> byte list" where
  "CIDRMask ones bits =
     map (\<lambda>i. if ones - 8 * i \<ge> 8 then 0xFF else NOT (drop_bit (ones - 8 * i) 0xFF))
         [0 ..< bits div 8]"

text \<open>\<open>IP.Mask\<close>: nil (\<open>None\<close>) when the lengths do not fit.\<close>

definition IP_Mask :: "byte list \<Rightarrow> byte list \<Rightarrow> byte list option" where
  "IP_Mask ip msk =
     (let msk1 = (if length msk = 16 \<and> length ip = 4 \<and> take 12 msk = replicate 12 0xFF
                   then drop 12 msk else msk);
          ip1 = (if length msk1 = 4 \<and> length ip = 16 \<and> take 12 ip = v4InV6Prefix
                 then drop 12 ip else ip)
      in if length ip1 \<noteq> length msk1 then None
         else Some (map (\<lambda>(a, m). a AND m) (zip ip1 msk1)))"

record IPNet =
  net_IP :: "byte list"
  net_Mask :: "byte list"

text \<open>
  \<open>net.ParseCIDR\<close>: the text before the first \<open>/\<close> is an address, the text after it a
  decimal prefix length (\<open>dtoi\<close>: digits only, at least one) of at most the address's
  bit length. Of the three results the evaluator uses the network and the error.
\<close>

definition ParseCIDR :: "string \<Rightarrow> error + IPNet" where
  "ParseCIDR s =
     (if CHR ''/'' \<notin> set s then Inl (ParseError s)
      else
        (let addr = takeWhile (\<lambda>c. c \<noteq> CHR ''/'') s;
             msk = drop (length addr + 1) s
         in case ParseAddr addr of
              None \<Rightarrow> Inl (ParseError s)
            | Some ipAddr \<Rightarrow>
                if msk = [] \<or> \<not> list_all isDigit msk \<or> decimal msk \<ge> 0xFFFFFF
                   \<or> nat (decimal msk) > BitLen ipAddr
                then Inl (ParseError s)
                else
                  (let m = CIDRMask (nat (decimal msk)) (BitLen ipAddr)
                   in case IP_Mask (As16 ipAddr) m of
                        None \<Rightarrow> Inr \<lparr>net_IP = [], net_Mask = m\<rparr>
                      | Some masked \<Rightarrow> Inr \<lparr>net_IP = masked, net_Mask = m\<rparr>)))"

text \<open>\<open>networkNumberAndMask\<close> and \<open>IPNet.Contains\<close>.\<close>

definition networkNumberAndMask :: "IPNet \<Rightarrow> (byte list \<times> byte list) option" where
  "networkNumberAndMask n =
     (case (case To4 (net_IP n) of
              Some ip4 \<Rightarrow> Some ip4
            | None \<Rightarrow> if length (net_IP n) \<noteq> 16 then None else Some (net_IP n)) of
        None \<Rightarrow> None
      | Some ip \<Rightarrow>
          if length (net_Mask n) = 4 then
            (if length ip \<noteq> 4 then None else Some (ip, net_Mask n))
          else if length (net_Mask n) = 16 then
            (if length ip = 4 then Some (ip, drop 12 (net_Mask n)) else Some (ip, net_Mask n))
          else None)"

definition Contains :: "IPNet \<Rightarrow> byte list \<Rightarrow> bool" where
  "Contains n ip =
     (let ip1 = (case To4 ip of Some x \<Rightarrow> x | None \<Rightarrow> ip)
      in case networkNumberAndMask n of
           None \<Rightarrow> length ip1 = 0
         | Some (nn, m) \<Rightarrow>
             length ip1 = length nn
             \<and> list_all (\<lambda>(a, b, k). a AND k = b AND k) (zip nn (zip ip1 m)))"

definition IPAddressFunc :: ConditionOperatorFunc where
  "IPAddressFunc param1 param2 =
     and_then (as_string param1) (\<lambda>value.
     and_then (as_strings param2) (\<lambda>values.
     (case ParseIP value of
        None \<Rightarrow> Inr False
      | Some requestIP \<Rightarrow>
          Inr (anyMatch value values (\<lambda>_ policyValue.
            case ParseIP policyValue of
              None \<Rightarrow>
                (case ParseCIDR policyValue of
                   Inl err \<Rightarrow> False
                 | Inr policyNet \<Rightarrow> Contains policyNet requestIP)
            | Some policyIP \<Rightarrow> IP_Equal requestIP policyIP)))))"

definition NotIPAddressFunc :: ConditionOperatorFunc where
  "NotIPAddressFunc param1 param2 =
     and_then (as_string param1) (\<lambda>value.
     and_then (as_strings param2) (\<lambda>values.
     (case ParseIP value of
        None \<Rightarrow> Inr False
      | Some requestIP \<Rightarrow>
          Inr (anyMatch value values (\<lambda>_ policyValue.
            case ParseIP policyValue of
              None \<Rightarrow>
                (case ParseCIDR policyValue of
                   Inl err \<Rightarrow> False
                 | Inr policyNet \<Rightarrow> \<not> Contains policyNet requestIP)
            | Some policyIP \<Rightarrow> \<not> IP_Equal requestIP policyIP)))))"

section \<open>The condition evaluator\<close>

text \<open>
  A \<open>Condition\<close> and a \<open>ConditionValue\<close> are Go maps, and \<open>ConditionMather\<close> walks them
  with \<open>range\<close>, in an order the runtime picks. The model keeps each as the list of its
  entries in the order of the walk; the keys of a map are distinct. The context is
  only looked up.
\<close>

type_synonym ConditionValue = "(string \<times> string list) list"

type_synonym Condition = "(string \<times> ConditionValue) list"

type_synonym ConditionContext = "string \<rightharpoonup> iface"

definition conditionOperatorFuncMap :: "(string \<times> ConditionOperatorFunc) list" where
  "conditionOperatorFuncMap =
     [(''StringEquals'', StringEqualsFunc),
      (''StringNotEquals'', StringNotEqualsFunc),
      (''StringEqualsIgnoreCase'', StringEqualsIgnoreCaseFunc),
      (''StringNotEqualsIgnoreCase'', StringNotEqualsIgnoreCaseFunc),
      (''StringLike'', StringLikeFunc),
      (''StringNotLike'', StringNotLikeFunc),
      (''NumericEquals'', NumericEqualsFunc),
      (''NumericNotEquals'', NumericNotEqualsFunc),
      (''NumericLessThan'', NumericLessThanFunc),
      (''NumericLessThanEquals'', NumericLessThanEqualsFunc),
      (''NumericGreaterThan'', NumericGreaterThanFunc),
      (''NumericGreaterThanEquals'', NumericGreaterThanEqualsFunc),
      (''DateEquals'', DateEqualsFunc),
      (''DateNotEquals'', DateNotEqualsFunc),
      (''DateLessThan'', DateLessThanFunc),
      (''DateLessThanEquals'', DateLessThanEqualsFunc),
      (''DateGreaterThan'', DateGreaterThanFunc),
      (''DateGreaterThanEquals'', DateGreaterThanEqualsFunc),
      (''Bool'', BoolFunc),
      (''IPAddress'', IPAddressFunc),
      (''NotIPAddress'', NotIPAddressFunc)]"

text \<open>
  The inner loop, over the entries of one operator's \<open>ConditionValue\<close>: \<open>Inr True\<close> when
  it runs to its end, \<open>Inr False\<close> where the function returns \<open>false, nil\<close>, \<open>Inl\<close> where
  the comparison function panics. The comparison function gets the context's value
  and the \<open>[]string\<close> of the entry.
\<close>

fun range_cond :: "ConditionOperatorFunc \<Rightarrow> ConditionContext \<Rightarrow> ConditionValue \<Rightarrow> panic + bool" where
  "range_cond fn condsContext [] = Inr True"
| "range_cond fn condsContext ((condKey, v1) # cond) =
     (case condsContext condKey of
        None \<Rightarrow> Inr False
      | Some x \<Rightarrow>
          (case fn x (VStrings v1) of
             Inl p \<Rightarrow> Inl p
           | Inr ok \<Rightarrow> if \<not> ok then Inr False else range_cond fn condsContext cond))"

text \<open>The outer loop, over the operators, and the \<open>return true, nil\<close> after it.\<close>

fun range_conds :: "Condition \<Rightarrow> ConditionContext \<Rightarrow> panic + (bool \<times> error option)" where
  "range_conds [] condsContext = Inr (True, None)"
| "range_conds ((k, cond) # conds) condsContext =
     (case map_of conditionOperatorFuncMap k of
        None \<Rightarrow> Inr (False, None)
      | Some fn \<Rightarrow>
          (case range_cond fn condsContext cond of
             Inl p \<Rightarrow> Inl p
           | Inr done \<Rightarrow> if \<not> done then Inr (False, None) else range_conds conds condsContext))"

text \<open>
  \<open>ConditionMather\<close>, called with two strings. \<open>encoding/json\<close> is the library's: the
  model takes the results of the two calls of \<open>json.Unmarshal\<close>, on the condition text
  first and on the context text second, and does what the function does with them.
\<close>

definition ConditionMather ::
  "error + Condition \<Rightarrow> error + ConditionContext \<Rightarrow> panic + (bool \<times> error option)" where
  "ConditionMather conds_decoded condsContext_decoded =
     (case conds_decoded of
        Inl err \<Rightarrow> Inr (False, Some err)
      | Inr conds \<Rightarrow>
          (case condsContext_decoded of
             Inl err \<Rightarrow> Inr (False, Some err)
           | Inr condsContext \<Rightarrow> range_conds conds condsContext))"

text \<open>
  The invariant of the cache: the expression stored under a pattern is the one
  \<open>CompileWildcardRegex\<close> gives for that pattern.
\<close>

definition cache_sound :: "'re regexp2 \<Rightarrow> 're RegexpMatcher \<Rightarrow> bool" where
  "cache_sound E m =
     (\<forall>k reg. (k, reg) \<in> set (items m) \<longrightarrow> CompileWildcardRegex E k = Inr reg)"

text \<open>
  What the model of the engine makes of a pattern, byte by byte: \<open>*\<close> is \<open>.*\<close>, any other
  byte \<open>c\<close> is the rune with the number \<open>c\<close> (for a byte from \<open>0x80\<close> on that is what
  \<open>string(c)\<close> encodes). \<open>piece\<close> is the text written for one byte and \<open>piece_runes\<close>
  the runes the parser reads from it.
\<close>

definition node_of :: "char \<Rightarrow> node" where
  "node_of c = (if c = CHR ''*'' then AnyStar else Lit (of_char c))"

definition piece :: "char \<Rightarrow> string" where
  "piece c = (if c = CHR ''*'' then ''.*'' else regexp_QuoteMeta (string_of_byte c))"

definition piece_runes :: "char \<Rightarrow> nat list" where
  "piece_runes c =
     (if c = CHR ''*'' then [0x2E, 0x2A]
      else if special c then [0x5C, of_char c]
      else [of_char c])"

text \<open>The operators whose comparison function asserts \<open>string\<close> and \<open>[]string\<close>.\<close>

definition asserts_strings :: "string \<Rightarrow> bool" where
  "asserts_strings k = (k \<in> set [''StringEquals'', ''StringNotEquals'', ''StringEqualsIgnoreCase'',
      ''StringNotEqualsIgnoreCase'', ''StringLike'', ''StringNotLike'', ''DateEquals'',
      ''DateNotEquals'', ''DateLessThan'', ''DateLessThanEquals'', ''DateGreaterThan'',
      ''DateGreaterThanEquals'', ''IPAddress'', ''NotIPAddress''])"


section \<open>Properties of the pattern matcher\<close>

lemma contains_star: "strings_Contains h ''*'' = (CHR ''*'' \<in> set h)"
  by (induction h) auto

lemma split_no_sep: "sep \<notin> set s \<Longrightarrow> strings_Split s sep = [s]"
  by (induction s) auto

text \<open>
  Claim C5. A pattern element has no comma in it. For an element \<open>P\<close> without \<open>*\<close> and
  any candidate \<open>S\<close>, \<open>Matches(S, P)\<close> returns \<open>true\<close> exactly when \<open>S\<close> and \<open>P\<close> are the
  same string, and the error is nil either way; the cache is left as it was, whatever
  it held and whatever the engine does.
\<close>

theorem Matches_literal:
  "CHR ''*'' \<notin> set P \<Longrightarrow> CHR '','' \<notin> set P \<Longrightarrow> Matches E m S P = ((S = P, None), m)"
  by (auto simp: Matches_def split_no_sep contains_star)

theorem Matches_literal_witness:
  "CHR ''*'' \<notin> set ''ecs:Describe'' \<and> CHR '','' \<notin> set ''ecs:Describe''
   \<and> Matches (regexp2_wild in_time) (NewRegexpMatcher 512) ''ecs:Describe'' ''ecs:Describe''
       = ((True, None), NewRegexpMatcher 512)
   \<and> Matches (regexp2_wild in_time) (NewRegexpMatcher 512) ''ecs:DescribeInstances'' ''ecs:Describe''
       = ((False, None), NewRegexpMatcher 512)"
  using Matches_literal[of "''ecs:Describe''" "regexp2_wild in_time" "NewRegexpMatcher 512" "''ecs:Describe''"]
        Matches_literal[of "''ecs:Describe''" "regexp2_wild in_time" "NewRegexpMatcher 512" "''ecs:DescribeInstances''"]
  by simp

text \<open>
  Claim C6, at the inputs where the code departs from it. \<open>CompileWildcardRegex\<close>
  writes \<open>.*\<close> for \<open>*\<close>, and \<open>.\<close> does not match a newline: the candidate \<open>a\nb\<close> is not
  empty and yet \<open>Matches\<close> of it and the pattern \<open>*\<close> is \<open>false\<close> with a nil error. The two
  examples of the claim hold.
\<close>

theorem star_misses_newline:
  "fst (Matches (regexp2_wild in_time) (NewRegexpMatcher 512) [CHR ''a'', CHR 0x0A, CHR ''b''] ''*'')
     = (False, None)
   \<and> fst (Matches (regexp2_wild in_time) (NewRegexpMatcher 512) ''ecs:DescribeInstances'' ''ecs:Describe*'')
     = (True, None)
   \<and> fst (Matches (regexp2_wild in_time) (NewRegexpMatcher 512) ''ecs:CreateInstance'' ''ecs:Describe*'')
     = (False, None)"
  by code_simp

lemma get_sound:
  assumes "cache_sound E m" and "get m h = (r, m')"
  shows "cache_sound E m' \<and> (\<forall>reg. r = Some reg \<longrightarrow> CompileWildcardRegex E h = Inr reg)"
proof (cases "map_of (items m) h")
  case None
  then show ?thesis using assms by (auto simp: get_def lru_Get_def)
next
  case (Some v)
  then have "(h, v) \<in> set (items m)" by (rule map_of_SomeD)
  then show ?thesis using Some assms
    by (auto simp: get_def lru_Get_def cache_sound_def without_def)
qed

lemma set_sound:
  "cache_sound E m \<Longrightarrow> CompileWildcardRegex E h = Inr reg \<Longrightarrow> cache_sound E (set_cache m h reg)"
  by (auto simp: set_cache_def lru_Add_def cache_sound_def without_def Let_def
           split: option.splits dest: in_set_butlastD)

lemma matches_cache:
  "cache_sound E m \<Longrightarrow>
     fst (matches E m needle hs) = matches_compiling E needle hs
     \<and> cache_sound E (snd (matches E m needle hs))"
proof (induction hs arbitrary: m)
  case Nil
  then show ?case by simp
next
  case (Cons h hs)
  show ?case
  proof (cases "strings_Contains h ''*''")
    case False
    then show ?thesis using Cons by simp
  next
    case True
    obtain r m1 where g: "get m h = (r, m1)" by (cases "get m h")
    from get_sound[OF Cons.prems g]
    have m1: "cache_sound E m1" and r: "\<And>reg. r = Some reg \<Longrightarrow> CompileWildcardRegex E h = Inr reg"
      by auto
    show ?thesis
    proof (cases r)
      case (Some reg)
      then show ?thesis using True g r[OF Some] Cons.IH[OF m1] m1
        by (simp split: sum.splits)
    next
      case None
      show ?thesis
      proof (cases "CompileWildcardRegex E h")
        case (Inl err)
        then show ?thesis using True g None m1 by simp
      next
        case (Inr reg)
        have m2: "cache_sound E (set_cache m1 h reg)" using set_sound[OF m1 Inr] .
        show ?thesis using True g None Inr Cons.IH[OF m2] m2
          by (simp add: Let_def split: sum.splits)
      qed
    qed
  qed
qed

lemma new_sound: "cache_sound E (NewRegexpMatcher n)"
  by (simp add: cache_sound_def NewRegexpMatcher_def lru_New_def)

lemma reachable_sound: "reachable E m \<Longrightarrow> cache_sound E m"
proof (induction rule: reachable.induct)
  case (new n)
  show ?case by (rule new_sound)
next
  case (got m pattern)
  then show ?case using get_sound[of E m pattern "fst (get m pattern)" "snd (get m pattern)"]
    by simp
next
  case (stored m pattern reg)
  then show ?case by (simp add: set_sound)
qed

text \<open>A call of \<open>matches\<close>, and so of \<open>Matches\<close> and \<open>MustMatch\<close>, leaves a reachable state.\<close>

lemma matches_reachable: "reachable E m \<Longrightarrow> reachable E (snd (matches E m needle hs))"
proof (induction hs arbitrary: m)
  case Nil
  then show ?case by simp
next
  case (Cons h hs)
  show ?case
  proof (cases "strings_Contains h ''*''")
    case False
    then show ?thesis using Cons by simp
  next
    case True
    have m1: "reachable E (snd (get m h))" using Cons.prems by (rule reachable.got)
    show ?thesis
    proof (cases "fst (get m h)")
      case (Some reg)
      then show ?thesis using True m1 Cons.IH[OF m1]
        by (simp add: case_prod_beta split: sum.splits)
    next
      case None
      show ?thesis
      proof (cases "CompileWildcardRegex E h")
        case (Inl err)
        then show ?thesis using True None m1 by (simp add: case_prod_beta)
      next
        case (Inr reg)
        have m2: "reachable E (set_cache (snd (get m h)) h reg)"
          using m1 Inr by (rule reachable.stored)
        show ?thesis using True None Inr m2 Cons.IH[OF m2]
          by (simp add: case_prod_beta Let_def split: sum.splits)
      qed
    qed
  qed
qed

lemma Matches_reachable: "reachable E m \<Longrightarrow> reachable E (snd (Matches E m key1 key2))"
  by (simp add: Matches_def matches_reachable)

lemma special_ascii: "special c \<Longrightarrow> (of_char c :: nat) < 0x80"
  by (auto simp: special_def)

lemma special_rune_of_char: "special_rune (of_char c) = special c"
proof -
  have "special c = (c \<in> set (CHR 0x5C # ''.+*?()|[]{}^$''))"
    by (simp add: special_def)
  moreover have "special_rune (of_char c)
                   = ((of_char c :: nat) \<in> of_char ` set (CHR 0x5C # ''.+*?()|[]{}^$''))"
    by (simp only: special_rune_def set_map)
  ultimately show ?thesis
    by (simp only: inj_image_mem_iff[OF inj_of_char])
qed

lemma runes_ascii: "b < 0x80 \<Longrightarrow> runes_of_bytes (b # bs) = b # runes_of_bytes bs"
  by simp

lemma runes_two:
  "0xC2 \<le> b0 \<Longrightarrow> b0 \<le> 0xDF \<Longrightarrow> cont b1
     \<Longrightarrow> runes_of_bytes (b0 # b1 # bs) = ((b0 - 0xC0) * 0x40 + (b1 - 0x80)) # runes_of_bytes bs"
  by simp

lemma high_not_special: "0x80 \<le> n \<Longrightarrow> n < 256 \<Longrightarrow> \<not> special (char_of (n::nat))"
  using special_ascii[of "char_of n"] by auto

lemma piece_decodes:
  "runes_of_bytes (map of_char (piece c) @ bs) = piece_runes c @ runes_of_bytes bs"
proof (cases "c = CHR ''*''")
  case True
  then show ?thesis by (simp add: piece_def piece_runes_def)
next
  case star: False
  show ?thesis
  proof (cases "(of_char c :: nat) < 0x80")
    case True
    then show ?thesis using star
      by (simp add: piece_def piece_runes_def string_of_byte_def regexp_QuoteMeta_def Let_def)
  next
    case False
    define n where "n = (of_char c :: nat)"
    have n: "0x80 \<le> n" "n < 256" using False by (simp_all add: n_def)
    have ns: "\<not> special c" using special_ascii[of c] False by auto
    have hi: "0xC0 + n div 0x40 < 256" "0x80 + n mod 0x40 < 256" using n by auto
    have s1: "\<not> special (char_of (0xC0 + n div 0x40))" "\<not> special (char_of (0x80 + n mod 0x40))"
      using high_not_special hi by auto
    have b0: "0xC2 \<le> 0xC0 + n div 0x40" "0xC0 + n div 0x40 \<le> 0xDF" using n by auto
    have b1: "cont (0x80 + n mod 0x40)" by (simp add: cont_def)
    have val: "(0xC0 + n div 0x40 - 0xC0) * 0x40 + (0x80 + n mod 0x40 - 0x80) = n" by simp
    have "piece c = [char_of (0xC0 + n div 0x40), char_of (0x80 + n mod 0x40)]"
      using star False s1 by (simp add: piece_def string_of_byte_def regexp_QuoteMeta_def n_def Let_def)
    then have "map of_char (piece c) @ bs = (0xC0 + n div 0x40) # (0x80 + n mod 0x40) # bs"
      using hi by simp
    then show ?thesis using runes_two[OF b0 b1, of bs] val ns star
      by (simp add: piece_runes_def n_def del: runes_of_bytes.simps)
  qed
qed

lemma pieces_decode:
  "runes_of_bytes (map of_char (concat (map piece p)) @ bs)
     = concat (map piece_runes p) @ runes_of_bytes bs"
  by (induction p) (simp_all add: piece_decodes)

lemma runes_wildcard_expr:
  "runes (wildcard_expr p) = 0x5E # concat (map piece_runes p) @ [0x24]"
proof -
  have "wildcard_expr p = ''^'' @ concat (map piece p) @ ''$''"
    by (simp add: wildcard_expr_def piece_def[abs_def])
  then show ?thesis using pieces_decode[of p "[0x24]"]
    by (simp add: runes_def)
qed

lemma parse_pieces:
  "parse_items (concat (map piece_runes p) @ [0x24]) = Some (map node_of p)"
proof (induction p)
  case Nil
  then show ?case by simp
next
  case (Cons c p)
  let ?rest = "concat (map piece_runes p) @ [0x24::nat]"
  obtain r rs where rest: "?rest = r # rs"
    by (cases ?rest) auto
  show ?case
  proof (cases "c = CHR ''*''")
    case True
    then show ?thesis using Cons by (simp add: piece_runes_def node_of_def)
  next
    case star: False
    show ?thesis
    proof (cases "special c")
      case True
      have lhs: "concat (map piece_runes (c # p)) @ [0x24] = 0x5C # of_char c # ?rest"
        using star True by (simp add: piece_runes_def)
      have "parse_items (0x5C # of_char c # ?rest) = map_option (Cons (Lit (of_char c))) (parse_items ?rest)"
        using True by (simp add: special_rune_of_char)
      then show ?thesis unfolding lhs using Cons star by (simp add: node_of_def)
    next
      case False
      have "special_rune 0x2E" "special_rune 0x5C"
        by (simp_all add: special_rune_def)
      then have ne: "(of_char c :: nat) \<noteq> 0x2E" "(of_char c :: nat) \<noteq> 0x5C"
        using False special_rune_of_char[of c] by auto
      have lhs: "concat (map piece_runes (c # p)) @ [0x24] = of_char c # r # rs"
        using star False rest by (simp add: piece_runes_def)
      have "parse_items (of_char c # r # rs) = map_option (Cons (Lit (of_char c))) (parse_items (r # rs))"
        using False ne by (simp add: special_rune_of_char)
      then show ?thesis unfolding lhs using Cons star rest by (simp add: node_of_def)
    qed
  qed
qed

text \<open>
  In the model of the engine \<open>CompileWildcardRegex\<close> fails on no pattern, and the
  expression it returns is the pattern read byte by byte.
\<close>

lemma Compile_wildcard_expr:
  "CompileWildcardRegex (regexp2_wild timeout) p = Inr (map node_of p)"
  by (simp add: CompileWildcardRegex_def regexp2_wild_def parse_def runes_wildcard_expr parse_pieces)

lemma run_AnyStar: "run [AnyStar] rs = (0x0A \<notin> set rs)"
  by (induction rs) auto

text \<open>
  How far the pattern \<open>*\<close> reaches: it matches the candidates without a newline, the
  empty one among them, and no other.
\<close>

lemma star_matches:
  "reachable (regexp2_wild in_time) m \<Longrightarrow>
     fst (Matches (regexp2_wild in_time) m S ''*'') = (0x0A \<notin> set (runes S), None)"
proof -
  assume "reachable (regexp2_wild in_time) m"
  then have sound: "cache_sound (regexp2_wild in_time) m"
    by (rule reachable_sound)
  have pieces: "strings_Split ''*'' CHR '','' = [''*'']"
    by simp
  have "fst (matches (regexp2_wild in_time) m S [''*''])
          = matches_compiling (regexp2_wild in_time) S [''*'']"
    using matches_cache[OF sound] by (rule conjunct1)
  then have "fst (Matches (regexp2_wild in_time) m S ''*'')
               = matches_compiling (regexp2_wild in_time) S [''*'']"
    by (simp only: Matches_def pieces)
  also have "\<dots> = (run [AnyStar] (runes S), None)"
    by (simp add: Compile_wildcard_expr node_of_def) (simp add: regexp2_wild_def in_time_def)
  finally show ?thesis by (simp add: run_AnyStar)
qed

text \<open>
  A byte from \<open>0x80\<close> on in a wildcard pattern stands for the rune of that number, not
  for itself: the pattern of the bytes \<open>C3 A9 2A\<close> (an e with an acute accent in UTF-8,
  then \<open>*\<close>) does not match the candidate \<open>C3 A9 31\<close>.
\<close>

lemma non_ascii_literal_misses:
  "fst (Matches (regexp2_wild in_time) (NewRegexpMatcher 512)
          [CHR 0xC3, CHR 0xA9, CHR ''1''] [CHR 0xC3, CHR 0xA9, CHR ''*'']) = (False, None)"
  by code_simp

text \<open>
  Claim C7. The result of \<open>Matches\<close> does not depend on the cache. In any two states
  \<open>m\<close> and \<open>m'\<close> the matcher can be in (new, or after any lookups and insertions,
  whatever they cached or evicted) the same candidate and pattern list give the same boolean and the same error;
  a call repeated on the state the first call left gives the same again; and that
  result is the one of the compile-then-evaluate path alone. The engine is any
  engine whose answers depend on the expression and the input only.
\<close>

theorem Matches_cache_independent:
  "reachable E m \<Longrightarrow> reachable E m' \<Longrightarrow>
     fst (Matches E m key1 key2) = fst (Matches E m' key1 key2)
     \<and> fst (Matches E (snd (Matches E m key1 key2)) key1 key2) = fst (Matches E m key1 key2)
     \<and> fst (Matches E m key1 key2) = matches_compiling E key1 (strings_Split key2 CHR '','')"
proof -
  assume m: "reachable E m" and m': "reachable E m'"
  have again: "reachable E (snd (Matches E m key1 key2))"
    using m by (rule Matches_reachable)
  have "\<And>x. reachable E x \<Longrightarrow>
          fst (Matches E x key1 key2) = matches_compiling E key1 (strings_Split key2 CHR '','')"
    by (simp add: Matches_def matches_cache reachable_sound)
  then show ?thesis using m m' again by simp
qed

lemma evicting_call:
  "snd (Matches (regexp2_wild in_time) (NewRegexpMatcher 1) ''x'' ''a*,b*'')
     = \<lparr>cache_size = 1, items = [(''b*'', [Lit 0x62, AnyStar])]\<rparr>"
  by code_simp

lemma fresh_call:
  "fst (Matches (regexp2_wild in_time) (NewRegexpMatcher 512) ''bcd'' ''a*,b*'') = (True, None)"
  by code_simp

lemma caching_call:
  "snd (Matches (regexp2_wild in_time) (NewRegexpMatcher 2) ''x'' ''b*'')
     = \<lparr>cache_size = 2, items = [(''b*'', [Lit 0x62, AnyStar])]\<rparr>"
  by code_simp

lemma fresh_single_call:
  "fst (Matches (regexp2_wild in_time) (NewRegexpMatcher 512) ''bcd'' ''b*'') = (True, None)"
  by code_simp

theorem Matches_cache_independent_witness:
  "reachable (regexp2_wild in_time)
     (snd (Matches (regexp2_wild in_time) (NewRegexpMatcher 1) ''x'' ''a*,b*''))
   \<and> reachable (regexp2_wild in_time) (NewRegexpMatcher 512)
   \<and> items (snd (Matches (regexp2_wild in_time) (NewRegexpMatcher 1) ''x'' ''a*,b*''))
       = [(''b*'', [Lit 0x62, AnyStar])]
   \<and> fst (Matches (regexp2_wild in_time)
            (snd (Matches (regexp2_wild in_time) (NewRegexpMatcher 1) ''x'' ''a*,b*''))
            ''bcd'' ''a*,b*'') = (True, None)
   \<and> fst (Matches (regexp2_wild in_time) (NewRegexpMatcher 512) ''bcd'' ''a*,b*'') = (True, None)
   \<and> reachable (regexp2_wild in_time)
        (snd (Matches (regexp2_wild in_time) (NewRegexpMatcher 2) ''x'' ''b*''))
   \<and> fst (get (snd (Matches (regexp2_wild in_time) (NewRegexpMatcher 2) ''x'' ''b*'')) ''b*'')
       = Some [Lit 0x62, AnyStar]
   \<and> fst (Matches (regexp2_wild in_time)
            (snd (Matches (regexp2_wild in_time) (NewRegexpMatcher 2) ''x'' ''b*''))
            ''bcd'' ''b*'') = (True, None)"
proof -
  have r1: "reachable (regexp2_wild in_time)
              (snd (Matches (regexp2_wild in_time) (NewRegexpMatcher 1) ''x'' ''a*,b*''))"
    by (rule Matches_reachable) (rule reachable.new)
  have r2: "reachable (regexp2_wild in_time) (NewRegexpMatcher 512)"
    by (rule reachable.new)
  have r3: "reachable (regexp2_wild in_time)
              (snd (Matches (regexp2_wild in_time) (NewRegexpMatcher 2) ''x'' ''b*''))"
    by (rule Matches_reachable) (rule reachable.new)
  have hit: "fst (get \<lparr>cache_size = 2, items = [(''b*'', [Lit 0x62, AnyStar])]\<rparr> ''b*'')
               = Some [Lit 0x62, AnyStar]"
    by (simp add: get_def lru_Get_def)
  from Matches_cache_independent[OF r1 r2, of "''bcd''" "''a*,b*''"]
       Matches_cache_independent[OF r3 r2, of "''bcd''" "''b*''"] r1 r2 r3
  show ?thesis by (simp add: fresh_call evicting_call caching_call fresh_single_call hit)
qed

lemma loop_nesting:
  "0 \<le> level \<Longrightarrow>
     map_sum id fst (delimiterIndices_loop s ds de cs i level idx idxs) =
       (case nesting ds de (nat level) cs of
          None \<Rightarrow> Inl (Unbalanced s)
        | Some n \<Rightarrow> Inr (int n))"
proof (induction cs arbitrary: i level idx idxs)
  case Nil
  then show ?case by simp
next
  case (Cons c cs)
  show ?case
  proof (cases "c = ds")
    case True
    have q: "0 \<le> level + 1" using Cons.prems by simp
    have up: "nat (level + 1) = Suc (nat level)" using Cons.prems by simp
    show ?thesis
      using Cons.IH[OF q, of "i + 1" i idxs] Cons.IH[OF q, of "i + 1" idx idxs] True
      by (cases "level = 0") (simp_all add: up)
  next
    case notds: False
    show ?thesis
    proof (cases "c = de")
      case False
      then show ?thesis using notds Cons.IH[OF Cons.prems, of "i + 1" idx idxs] by simp
    next
      case True
      show ?thesis
      proof (cases "level = 0")
        case True
        then show ?thesis using notds \<open>c = de\<close> by simp
      next
        case False
        then have p: "0 \<le> level - 1" using Cons.prems by simp
        have dn: "nat level = Suc (nat (level - 1))" using False Cons.prems by simp
        have neg: "\<not> level - 1 < 0" using p by simp
        show ?thesis
          using Cons.IH[OF p, of "i + 1" idx "idxs @ [idx, i + 1]"]
                Cons.IH[OF p, of "i + 1" idx idxs] notds \<open>c = de\<close> neg
          by (cases "level = 1") (simp_all add: dn)
      qed
    qed
  qed
qed

lemma delimiterIndices_nesting:
  "delimiterIndices s ds de =
     (if nesting ds de 0 s = Some 0
      then Inr (snd (projr (delimiterIndices_loop s ds de s 0 0 0 [])))
      else Inl (Unbalanced s))"
  using loop_nesting[of 0 s ds de s 0 0 "[]"]
  by (auto simp: delimiterIndices_def split: sum.splits prod.splits if_splits option.splits)

lemma CompileRegex_loop_log: "snd (CompileRegex_loop E tpl idxs e p log) \<noteq> []"
  by (induction E tpl idxs e p log rule: CompileRegex_loop.induct)
     (auto simp: Let_def split: sum.splits)

text \<open>
  Claim C8. \<open>CompileRegex\<close> checks the balance of the delimiters before it compiles
  anything. With the counter of the specification (up on an open delimiter, down on a
  close), a template whose counter does not end at zero, or that closes with the
  counter at zero, gets the error \<open>Unbalanced braces\<close> and nothing has been handed to
  the engine; and these are the only templates that end so. \<open>"foo:<bar"\<close> with \<open><\<close>
  and \<open>>\<close> is one of them.
\<close>

theorem CompileRegex_unbalanced:
  "(nesting ds de 0 tpl \<noteq> Some 0) = (CompileRegex E tpl ds de = (Inl (Unbalanced tpl), []))"
proof (cases "nesting ds de 0 tpl = Some 0")
  case True
  then have "snd (CompileRegex E tpl ds de) \<noteq> []"
    by (simp add: CompileRegex_def delimiterIndices_nesting CompileRegex_loop_log)
  then show ?thesis using True by auto
next
  case False
  then show ?thesis by (simp add: CompileRegex_def delimiterIndices_nesting)
qed

theorem CompileRegex_unbalanced_witness:
  "nesting CHR ''<'' CHR ''>'' 0 ''foo:<bar'' \<noteq> Some 0
   \<and> CompileRegex (regexp2_wild in_time) ''foo:<bar'' CHR ''<'' CHR ''>''
       = (Inl (Unbalanced ''foo:<bar''), [])
   \<and> nesting CHR ''<'' CHR ''>'' 0 ''a>b<'' \<noteq> Some 0
   \<and> CompileRegex (regexp2_wild in_time) ''a>b<'' CHR ''<'' CHR ''>''
       = (Inl (Unbalanced ''a>b<''), [])"
  using CompileRegex_unbalanced[of "CHR ''<''" "CHR ''>''" "''foo:<bar''" "regexp2_wild in_time"]
        CompileRegex_unbalanced[of "CHR ''<''" "CHR ''>''" "''a>b<''" "regexp2_wild in_time"]
  by simp

text \<open>
  Claim C10. \<open>MustMatch\<close> is \<open>true\<close> exactly when \<open>Matches\<close> returns \<open>true\<close> with a nil
  error; whenever \<open>Matches\<close> returns an error, \<open>MustMatch\<close> is \<open>false\<close>, as it is for a
  candidate that does not match.
\<close>

theorem MustMatch_collapses:
  "fst (MustMatch E m key1 key2) = (fst (Matches E m key1 key2) = (True, None))
   \<and> (snd (fst (Matches E m key1 key2)) \<noteq> None \<longrightarrow> \<not> fst (MustMatch E m key1 key2))"
  by (auto simp: MustMatch_def split: prod.splits option.splits)

lemma slow_call:
  "fst (Matches (regexp2_wild too_slow) (NewRegexpMatcher 512) ''ab'' ''a*'')
     = (False, Some (WithStack MatchTimeout))"
  by code_simp

lemma quick_call:
  "fst (Matches (regexp2_wild in_time) (NewRegexpMatcher 512) ''ab'' ''a*'') = (True, None)"
  by code_simp

theorem MustMatch_collapses_witness:
  "snd (fst (Matches (regexp2_wild too_slow) (NewRegexpMatcher 512) ''ab'' ''a*'')) \<noteq> None
   \<and> \<not> fst (MustMatch (regexp2_wild too_slow) (NewRegexpMatcher 512) ''ab'' ''a*'')
   \<and> fst (MustMatch (regexp2_wild in_time) (NewRegexpMatcher 512) ''ab'' ''a*'')"
  using MustMatch_collapses[of "regexp2_wild too_slow" "NewRegexpMatcher 512" "''ab''" "''a*''"]
        MustMatch_collapses[of "regexp2_wild in_time" "NewRegexpMatcher 512" "''ab''" "''a*''"]
  by (simp add: slow_call quick_call)

section \<open>Properties of the condition evaluator\<close>

lemma anyMatch_iff: "anyMatch value values compareFn = (\<exists>v \<in> set values. compareFn value v)"
  by (induction "values") auto

lemma Numeric_always_panics:
  "fn \<in> {NumericEqualsFunc, NumericNotEqualsFunc, NumericLessThanFunc, NumericLessThanEqualsFunc,
          NumericGreaterThanFunc, NumericGreaterThanEqualsFunc}
   \<Longrightarrow> fn x (VStrings values) = Inl TypeAssertion"
  by (auto simp: NumericEqualsFunc_def NumericNotEqualsFunc_def NumericLessThanFunc_def
        NumericLessThanEqualsFunc_def NumericGreaterThanFunc_def NumericGreaterThanEqualsFunc_def
        and_then_def as_int_def as_ints_def split: iface.splits)

lemma Bool_always_panics: "BoolFunc x (VStrings values) = Inl TypeAssertion"
  by (auto simp: BoolFunc_def and_then_def as_bool_def as_bools_def split: iface.splits)

text \<open>A text that does not decode is an error, whichever of the two it is.\<close>

lemma decode_failure_is_error:
  "ConditionMather (Inl err) condsContext_decoded = Inr (False, Some err)"
  "ConditionMather (Inr conds) (Inl err) = Inr (False, Some err)"
  by (simp_all add: ConditionMather_def)

text \<open>
  Claim C1, at an input where the code departs from it. The context \<open>{"age": 18}\<close>
  decodes to a \<open>float64\<close> and the condition \<open>{"NumericEquals": {"age": ["18"]}}\<close> to a
  \<open>[]string\<close>; \<open>NumericEqualsFunc\<close> asserts \<open>int\<close> and \<open>[]int\<close>, and the evaluation panics
  where the claim has a comparison of integers.
\<close>

theorem Numeric_operator_panics:
  "ConditionMather (Inr [(''NumericEquals'', [(''age'', [''18''])])])
                   (Inr [''age'' \<mapsto> VFloat64 0x4032000000000000]) = Inl TypeAssertion"
  by code_simp

text \<open>
  Claim C2, at inputs where the code departs from it. \<open>BoolFunc\<close> asserts \<open>[]bool\<close> on
  the \<open>[]string\<close> it is given: the condition \<open>{"Bool": {"acs:MFAPresent": ["true"]}}\<close>
  with the context \<open>{"acs:MFAPresent": true}\<close> panics. So does a string comparison on a
  context value that is a JSON number.
\<close>

theorem Bool_operator_panics:
  "ConditionMather (Inr [(''Bool'', [(''acs:MFAPresent'', [''true''])])])
                   (Inr [''acs:MFAPresent'' \<mapsto> VBool True]) = Inl TypeAssertion
   \<and> ConditionMather (Inr [(''StringEquals'', [(''acs:Port'', [''443''])])])
                      (Inr [''acs:Port'' \<mapsto> VFloat64 0x407BB00000000000]) = Inl TypeAssertion"
  by code_simp

text \<open>
  What the date comparisons do with a text that does not parse: they go on with the
  zero \<open>Time\<close>. Two unparsable texts are equal, and an unparsable context value is
  before every timestamp after the first instant of year 1.
\<close>

lemma unparsable_is_zero: "snd (time_Parse a) \<noteq> None \<Longrightarrow> fst (time_Parse a) = zero_Time"
  by (simp add: time_Parse_def split: option.splits)

lemma unparsable_dates_compare_as_zero:
  "snd (time_Parse a) \<noteq> None \<Longrightarrow> snd (time_Parse b) \<noteq> None
     \<Longrightarrow> DateEqualsFunc (VString a) (VStrings [b]) = Inr True"
  "snd (time_Parse a) \<noteq> None \<Longrightarrow> Time_Before zero_Time (fst (time_Parse b))
     \<Longrightarrow> DateLessThanFunc (VString a) (VStrings [b]) = Inr True"
  by (simp_all add: DateEqualsFunc_def DateLessThanFunc_def and_then_def as_string_def
        as_strings_def unparsable_is_zero Time_Equal_def)

text \<open>
  Claim C3, at inputs where the code departs from it. A text that is no RFC 3339
  timestamp parses to the zero \<open>Time\<close>, and the comparison goes on with it: the
  context value \<open>not-a-date\<close> is before \<open>2024-01-12T06:59:00Z\<close> and satisfies
  \<open>DateLessThan\<close>, and it equals the unparsable \<open>neither\<close> and satisfies \<open>DateEquals\<close>.
\<close>

theorem unparsable_date_satisfies:
  "time_Parse ''not-a-date'' = (zero_Time, Some (ParseError ''not-a-date''))
   \<and> time_Parse ''neither'' = (zero_Time, Some (ParseError ''neither''))
   \<and> ConditionMather (Inr [(''DateLessThan'', [(''acs:CurrentTime'', [''2024-01-12T06:59:00Z''])])])
                      (Inr [''acs:CurrentTime'' \<mapsto> VString ''not-a-date'']) = Inr (True, None)
   \<and> ConditionMather (Inr [(''DateEquals'', [(''acs:CurrentTime'', [''neither''])])])
                      (Inr [''acs:CurrentTime'' \<mapsto> VString ''not-a-date'']) = Inr (True, None)"
  by code_simp

text \<open>
  The fail-closed returns, apart from the panics. A condition with an operator outside
  the map, or with an attribute the context lacks, never evaluates to \<open>true\<close>: if the
  evaluation returns at all, it returns \<open>false\<close> with a nil error
  (\<open>range_conds_never_true\<close>). And it does return when every value of the context is a
  string and the operators that are known are among those that assert strings
  (\<open>range_conds_returns\<close>).
\<close>

lemma range_cond_absent:
  "(condKey, v) \<in> set cond \<Longrightarrow> condsContext condKey = None
     \<Longrightarrow> range_cond fn condsContext cond \<noteq> Inr True"
  by (induction cond) (auto split: option.splits sum.splits if_splits)

lemma range_conds_never_true:
  assumes "(k, cond) \<in> set conds"
    and "map_of conditionOperatorFuncMap k = None
         \<or> (\<exists>condKey v. (condKey, v) \<in> set cond \<and> condsContext condKey = None)"
    and "range_conds conds condsContext = Inr r"
  shows "r = (False, None)"
  using assms
proof (induction conds)
  case Nil
  then show ?case by simp
next
  case (Cons kc conds)
  obtain k' cond' where kc: "kc = (k', cond')" by (cases kc)
  show ?case
  proof (cases "map_of conditionOperatorFuncMap k'")
    case None
    then show ?thesis using Cons.prems(3) kc by simp
  next
    case (Some fn)
    show ?thesis
    proof (cases "range_cond fn condsContext cond'")
      case (Inl p)
      then show ?thesis using Cons.prems(3) kc Some by simp
    next
      case (Inr fin)
      show ?thesis
      proof (cases fin)
        case False
        then show ?thesis using Cons.prems(3) kc Some Inr by simp
      next
        case True
        have rest: "range_conds conds condsContext = Inr r"
          using Cons.prems(3) kc Some Inr True by simp
        have "(k, cond) \<noteq> (k', cond')"
        proof
          assume "(k, cond) = (k', cond')"
          then have "map_of conditionOperatorFuncMap k \<noteq> None" and "cond = cond'"
            using Some by auto
          then obtain condKey v where "(condKey, v) \<in> set cond'" "condsContext condKey = None"
            using Cons.prems(2) by auto
          from range_cond_absent[of condKey v cond' condsContext fn, OF this]
          show False using Inr True by simp
        qed
        then have "(k, cond) \<in> set conds" using Cons.prems(1) kc by auto
        from Cons.IH[OF this Cons.prems(2) rest] show ?thesis .
      qed
    qed
  qed
qed

lemma string_comparators_return:
  "asserts_strings k \<Longrightarrow> map_of conditionOperatorFuncMap k = Some fn
     \<Longrightarrow> \<exists>b. fn (VString v) (VStrings vs) = Inr b"
  unfolding asserts_strings_def conditionOperatorFuncMap_def
  by (auto simp: and_then_def as_string_def as_strings_def
        StringEqualsFunc_def StringNotEqualsFunc_def StringEqualsIgnoreCaseFunc_def
        StringNotEqualsIgnoreCaseFunc_def StringLikeFunc_def StringNotLikeFunc_def
        DateEqualsFunc_def DateNotEqualsFunc_def DateLessThanFunc_def DateLessThanEqualsFunc_def
        DateGreaterThanFunc_def DateGreaterThanEqualsFunc_def IPAddressFunc_def NotIPAddressFunc_def
        split: option.splits)


lemma range_cond_returns:
  assumes "\<And>v vs. \<exists>b. fn (VString v) (VStrings vs) = Inr b"
    and "\<And>condKey x. condsContext condKey = Some x \<Longrightarrow> \<exists>s. x = VString s"
  shows "\<exists>b. range_cond fn condsContext cond = Inr b"
proof (induction cond)
  case Nil
  show ?case by (rule exI[of _ True]) simp
next
  case (Cons kv cond)
  obtain condKey v1 where kv: "kv = (condKey, v1)" by (cases kv)
  show ?case
  proof (cases "condsContext condKey")
    case None
    then have "range_cond fn condsContext (kv # cond) = Inr False" using kv by simp
    then show ?thesis by blast
  next
    case (Some x)
    then obtain s where s: "x = VString s" using assms(2) by blast
    obtain b where b: "fn (VString s) (VStrings v1) = Inr b" using assms(1) by blast
    show ?thesis
    proof (cases b)
      case True
      then show ?thesis using kv Some s b Cons.IH by simp
    next
      case False
      then have "range_cond fn condsContext (kv # cond) = Inr False" using kv Some s b by simp
      then show ?thesis by blast
    qed
  qed
qed

lemma range_conds_returns:
  assumes "\<And>k cond. (k, cond) \<in> set conds \<Longrightarrow> map_of conditionOperatorFuncMap k \<noteq> None
             \<Longrightarrow> asserts_strings k"
    and "\<And>condKey x. condsContext condKey = Some x \<Longrightarrow> \<exists>s. x = VString s"
  shows "\<exists>r. range_conds conds condsContext = Inr r"
  using assms(1)
proof (induction conds)
  case Nil
  show ?case by (rule exI[of _ "(True, None)"]) simp
next
  case (Cons kc conds)
  obtain k cond where kc: "kc = (k, cond)" by (cases kc)
  show ?case
  proof (cases "map_of conditionOperatorFuncMap k")
    case None
    then have "range_conds (kc # conds) condsContext = Inr (False, None)" using kc by simp
    then show ?thesis by blast
  next
    case (Some fn)
    then have "asserts_strings k" using Cons.prems[of k cond] kc by simp
    then have str: "\<And>v vs. \<exists>b. fn (VString v) (VStrings vs) = Inr b"
      using string_comparators_return Some by blast
    have "\<exists>b. range_cond fn condsContext cond = Inr b"
    proof (rule range_cond_returns)
      show "\<And>v vs. \<exists>b. fn (VString v) (VStrings vs) = Inr b" using str .
      show "\<And>condKey x. condsContext condKey = Some x \<Longrightarrow> \<exists>s. x = VString s"
        using assms(2) .
    qed
    then obtain b where b: "range_cond fn condsContext cond = Inr b" by blast
    have rest: "\<exists>r. range_conds conds condsContext = Inr r"
    proof (rule Cons.IH)
      fix k' cond'
      assume "(k', cond') \<in> set conds" "map_of conditionOperatorFuncMap k' \<noteq> None"
      then show "asserts_strings k'" using Cons.prems[of k' cond'] by simp
    qed
    show ?thesis
    proof (cases b)
      case True
      then show ?thesis using kc Some b rest by simp
    next
      case False
      then have "range_conds (kc # conds) condsContext = Inr (False, None)"
        using kc Some b by simp
      then show ?thesis by blast
    qed
  qed
qed

text \<open>
  Claim C4, at inputs where the code departs from it. When the walk over the
  condition comes to a \<open>Bool\<close> entry before it comes to the unknown operator, or to the
  attribute the context lacks, the evaluation panics and returns nothing.
\<close>

theorem panic_before_unknown_operator:
  "ConditionMather (Inr [(''Bool'', [(''acs:MFAPresent'', [''true''])]),
                         (''UnknownOperator'', [(''acs:MFAPresent'', [''true''])])])
                   (Inr [''acs:MFAPresent'' \<mapsto> VBool True]) = Inl TypeAssertion
   \<and> ConditionMather (Inr [(''Bool'', [(''acs:MFAPresent'', [''true'']), (''acs:Absent'', [''true''])])])
                      (Inr [''acs:MFAPresent'' \<mapsto> VBool True]) = Inl TypeAssertion"
  by code_simp

text \<open>
  \<open>IPAddressFunc\<close> on a context value that is a string: \<open>false\<close> when the value is no IP
  literal; otherwise \<open>true\<close> exactly when some acceptable value is an IP literal equal
  to the context's address or, being no IP literal, is a CIDR block that contains it.
\<close>

lemma IPAddressFunc_on_strings:
  "IPAddressFunc (VString value) (VStrings values) =
     Inr (case ParseIP value of
            None \<Rightarrow> False
          | Some requestIP \<Rightarrow>
              (\<exists>policyValue \<in> set values.
                 case ParseIP policyValue of
                   Some policyIP \<Rightarrow> IP_Equal requestIP policyIP
                 | None \<Rightarrow>
                     (case ParseCIDR policyValue of
                        Inr policyNet \<Rightarrow> Contains policyNet requestIP
                      | Inl err \<Rightarrow> False)))"
  by (auto simp: IPAddressFunc_def and_then_def as_string_def as_strings_def anyMatch_iff
           split: option.splits sum.splits)

text \<open>
  The same on texts: an equal literal matches and a different one does not; a block
  matches the addresses inside it only; a value that is neither literal nor block, or
  a block with a prefix length beyond the address, matches nothing; and a context
  value that is no IP literal matches nothing.
\<close>

lemma IPAddressFunc_on_texts:
  "IPAddressFunc (VString ''10.0.0.1'') (VStrings [''10.0.0.1'']) = Inr True"
  "IPAddressFunc (VString ''10.0.0.1'') (VStrings [''10.0.0.2'']) = Inr False"
  "IPAddressFunc (VString ''10.0.0.1'') (VStrings [''nonsense'', ''10.0.0.1/33'']) = Inr False"
  "IPAddressFunc (VString ''10.0.0.1'') (VStrings [''nonsense'', ''10.0.0.0/8'']) = Inr True"
  "IPAddressFunc (VString ''11.0.0.1'') (VStrings [''nonsense'', ''10.0.0.0/8'']) = Inr False"
  "IPAddressFunc (VString ''nonsense'') (VStrings [''nonsense'', ''10.0.0.1'']) = Inr False"
  by code_simp+

text \<open>
  Claim C9, at inputs where the code departs from it. \<open>IPAddressFunc\<close> asserts that the
  context value is a string before it parses anything. A context value that is a JSON
  number or a JSON boolean is no IP literal, and the claim has \<open>false\<close> for it; the
  evaluation panics. Same defect as in C1, C2 and C4. On context values that are
  strings the two examples of the claim hold: \<open>192.168.234.50\<close> is in
  \<open>192.168.234.0/24\<close> and \<open>203.0.113.9\<close> is not.
\<close>

theorem IPAddress_panics_on_non_string:
  "ConditionMather (Inr [(''IPAddress'', [(''acs:SourceIp'', [''192.168.234.0/24''])])])
                   (Inr [''acs:SourceIp'' \<mapsto> VFloat64 0x4045000000000000]) = Inl TypeAssertion
   \<and> ConditionMather (Inr [(''IPAddress'', [(''acs:SourceIp'', [''192.168.234.0/24''])])])
                      (Inr [''acs:SourceIp'' \<mapsto> VBool True]) = Inl TypeAssertion
   \<and> ConditionMather (Inr [(''IPAddress'', [(''acs:SourceIp'', [''192.168.234.0/24''])])])
                      (Inr [''acs:SourceIp'' \<mapsto> VString ''192.168.234.50'']) = Inr (True, None)
   \<and> ConditionMather (Inr [(''IPAddress'', [(''acs:SourceIp'', [''192.168.234.0/24''])])])
                      (Inr [''acs:SourceIp'' \<mapsto> VString ''203.0.113.9'']) = Inr (False, None)"
  by code_simp

end
